theory Spec2Isabelle
  imports Complex_Main "HOL-Library.Sublist"
begin

section \<open>areaDetector plugins: type validation, pipeline resolution, discovery, ROI setter\<close>

text \<open>
  A shallow embedding of \<^verbatim>\<open>ophyd/areadetector/plugins.py\<close>. Python exceptions are
  values of the type \<open>error\<close>; a method that mutates the instance returns the updated
  instance together with the exception it raised, if any (the mutation made before a
  raise stays). Calls into code outside the module (the signal layer, channel access,
  the inherited \<^verbatim>\<open>stage()\<close>) are not reimplemented: the outcome of each such call is
  an argument of the function that makes the call.
\<close>

subsection \<open>Exceptions\<close>

datatype error =
    DestroyedError
  | TimeoutError
  | PluginMisconfigurationError string
  | ValueError string
  | TypeError
  | KeyError
  | AttributeError
  | IndexError
  | UnboundLocalError
  | RecursionError
  | OtherError string

subsection \<open>\<^verbatim>\<open>collections.OrderedDict\<close> as an association list in insertion order\<close>

text \<open>
  \<^verbatim>\<open>d[k] = v\<close>: an existing key keeps its position and takes the new value, a new key is
  appended.
\<close>

fun od_setitem :: "'k \<Rightarrow> 'v \<Rightarrow> ('k \<times> 'v) list \<Rightarrow> ('k \<times> 'v) list" where
  "od_setitem k v [] = [(k, v)]"
| "od_setitem k v ((k', v') # d) =
     (if k' = k then (k, v) # d else (k', v') # od_setitem k v d)"

text \<open>\<^verbatim>\<open>d.update(other)\<close>: the items of \<open>other\<close> are stored one by one, in their order.\<close>

fun od_update :: "('k \<times> 'v) list \<Rightarrow> ('k \<times> 'v) list \<Rightarrow> ('k \<times> 'v) list" where
  "od_update d [] = d"
| "od_update d ((k, v) # other) = od_update (od_setitem k v d) other"

text \<open>\<^verbatim>\<open>d.move_to_end(k, last=False)\<close>: the item moves to the front; a missing key raises.\<close>

definition od_move_to_front :: "'k \<Rightarrow> ('k \<times> 'v) list \<Rightarrow> error + ('k \<times> 'v) list" where
  "od_move_to_front k d =
     (case map_of d k of
        None \<Rightarrow> Inl KeyError
      | Some v \<Rightarrow> Inr ((k, v) # filter (\<lambda>kv. fst kv \<noteq> k) d))"

subsection \<open>The plugin instance\<close>

datatype stage_val = IntV int | StrV string

datatype log_level = WARNING | DEBUG

text \<open>
  A record handed to the module logger: level, format string and the arguments
  (\<^verbatim>\<open>logger.warning(fmt, *args)\<close> leaves the formatting to the logging framework).
\<close>

type_synonym log_record = "log_level \<times> string \<times> string list"

text \<open>
  \<open>prefix_str\<close> is \<^verbatim>\<open>self.prefix\<close>, \<open>class_name\<close> is \<^verbatim>\<open>self.__class__.__name__\<close>,
  \<open>plugin_type_attr\<close> is the class attribute \<^verbatim>\<open>_plugin_type\<close> (\<open>None\<close> when the class
  declares none), \<open>misconfigured\<close> is \<^verbatim>\<open>self._misconfigured\<close> with Python's
  \<^verbatim>\<open>None\<close>/\<^verbatim>\<open>False\<close>/\<^verbatim>\<open>True\<close> as \<open>None\<close>/\<open>Some False\<close>/\<open>Some True\<close>
  (unknown, confirmed-ok, confirmed-bad), \<open>stage_sigs\<close> is the ordered dictionary
  \<^verbatim>\<open>self.stage_sigs\<close>, and \<open>logged\<close> collects what the instance's methods sent to
  the module logger.
\<close>

record plugin =
  prefix_str :: string
  class_name :: string
  plugin_type_attr :: "string option"
  misconfigured :: "bool option"
  stage_sigs :: "(string \<times> stage_val) list"
  logged :: "log_record list"

definition enable_on_stage :: "(string \<times> stage_val) list \<Rightarrow> (string \<times> stage_val) list" where
  "enable_on_stage sigs = od_setitem ''enable'' (IntV 1) sigs"

definition disable_on_stage :: "(string \<times> stage_val) list \<Rightarrow> (string \<times> stage_val) list" where
  "disable_on_stage sigs = od_setitem ''enable'' (IntV 0) sigs"

definition ensure_blocking :: "(string \<times> stage_val) list \<Rightarrow> (string \<times> stage_val) list" where
  "ensure_blocking sigs = od_setitem ''blocking_callbacks'' (StrV ''Yes'') sigs"

definition ensure_nonblocking :: "(string \<times> stage_val) list \<Rightarrow> (string \<times> stage_val) list" where
  "ensure_nonblocking sigs = od_setitem ''blocking_callbacks'' (StrV ''No'') sigs"

text \<open>
  \<^verbatim>\<open>PluginBase.__init__\<close>. \<open>super_sigs\<close> is \<^verbatim>\<open>self.stage_sigs\<close> as the inherited
  constructor leaves it, and \<open>parent_cam\<close> is the value of
  \<^verbatim>\<open>self.parent is not None and hasattr(self.parent, 'cam')\<close>.
\<close>

definition PluginBase_init ::
  "string \<Rightarrow> string \<Rightarrow> string option \<Rightarrow> (string \<times> stage_val) list \<Rightarrow> bool \<Rightarrow> error + plugin" where
  "PluginBase_init pfx cls ptype super_sigs parent_cam =
     (let m = (if ptype \<noteq> None then None else Some False);
          sigs1 = enable_on_stage super_sigs
      in case od_move_to_front ''enable'' sigs1 of
           Inl e \<Rightarrow> Inl e
         | Inr sigs2 \<Rightarrow>
             let sigs3 = ensure_blocking sigs2;
                 sigs4 = (if parent_cam
                          then od_update sigs3 [(''parent.cam.array_callbacks'', IntV 1)]
                          else sigs3)
             in Inr \<lparr>prefix_str = pfx, class_name = cls, plugin_type_attr = ptype,
                     misconfigured = m, stage_sigs = sigs4, logged = []\<rparr>)"

subsection \<open>The connection callback on the type report\<close>

text \<open>
  \<^verbatim>\<open>PluginBase._plugin_type_connected(self, connected)\<close>. \<open>plugin_type_get\<close> is the
  outcome of \<^verbatim>\<open>self.plugin_type.get()\<close>, should the callback reach that call, and
  \<open>connected_arg\<close> is the argument \<^verbatim>\<open>connected\<close>.
  \<^verbatim>\<open>str.startswith\<close> is \<^const>\<open>prefix\<close> with the arguments swapped.
\<close>

definition plugin_type_connected ::
  "plugin \<Rightarrow> bool \<Rightarrow> error + string \<Rightarrow> plugin \<times> error option" where
  "plugin_type_connected self connected_arg plugin_type_get =
     (if \<not> connected_arg \<or> plugin_type_attr self = None then (self, None)
      else
        case plugin_type_get of
          Inl e \<Rightarrow> (if e = DestroyedError then (self, None) else (self, Some e))
        | Inr plugin_type \<Rightarrow>
            let m = \<not> prefix (the (plugin_type_attr self)) plugin_type;
                args = [prefix_str self, class_name self, the (plugin_type_attr self),
                        plugin_type];
                entry = (if m
                  then (WARNING,
                        ''Plugin prefix %r: trying to use %r class (plugin type=%r) '' @
                        '' but the plugin reports it is of type %r'', args)
                  else (DEBUG,
                        ''Plugin prefix %r type confirmed: %r class (plugin type=%r);'' @
                        '' plugin reports it is of type %r'', args))
            in (self\<lparr>misconfigured := Some m, logged := logged self @ [entry]\<rparr>, None))"

subsection \<open>Activation\<close>

text \<open>
  What the world answers to the calls \<^verbatim>\<open>PluginBase.stage\<close> makes, in the order of the
  calls: \<^verbatim>\<open>super().stage()\<close>, \<^verbatim>\<open>self.plugin_type.wait_for_connection()\<close>, the
  \<^verbatim>\<open>self.plugin_type.get()\<close> inside the callback, and the
  \<^verbatim>\<open>self.plugin_type.get()\<close> that fills the error message. \<open>None\<close> is a normal return.
\<close>

record stage_env =
  super_stage :: "error option"
  wait_for_connection :: "error option"
  get_check :: "error + string"
  get_report :: "error + string"

text \<open>
  The message of the \<^verbatim>\<open>PluginMisconfigurationError\<close>; \<open>repr\<close> is Python's
  \<^verbatim>\<open>repr\<close> on strings (the conversion \<^verbatim>\<open>{!r}\<close>), an argument of the model;
  \<^verbatim>\<open>repr(None)\<close> is \<^verbatim>\<open>None\<close>.
\<close>

definition misconfiguration_message ::
  "(string \<Rightarrow> string) \<Rightarrow> string \<Rightarrow> string \<Rightarrow> string option \<Rightarrow> string \<Rightarrow> string" where
  "misconfiguration_message repr pfx cls expected reported =
     ''Plugin prefix '' @ repr pfx @ '': trying to use '' @ repr cls @
     '' class (with plugin type='' @
     (case expected of None \<Rightarrow> ''None'' | Some t \<Rightarrow> repr t) @
     '') but the plugin reports it is of type '' @ repr reported"

text \<open>
  \<^verbatim>\<open>PluginBase.stage\<close>. The test \<^verbatim>\<open>if self._misconfigured:\<close> is true for
  \<^verbatim>\<open>True\<close> only (\<^verbatim>\<open>None\<close> and \<^verbatim>\<open>False\<close> are falsy).
\<close>

definition stage :: "(string \<Rightarrow> string) \<Rightarrow> plugin \<Rightarrow> stage_env \<Rightarrow> plugin \<times> error option" where
  "stage repr self env =
     (case super_stage env of
        Some e \<Rightarrow> (self, Some e)
      | None \<Rightarrow>
          (let (self1, raised) =
                (if misconfigured self = None then
                   (case wait_for_connection env of
                      Some e \<Rightarrow> (self, Some e)
                    | None \<Rightarrow> plugin_type_connected self True (get_check env))
                 else (self, None))
           in (case raised of
                 Some e \<Rightarrow> (self1, Some e)
               | None \<Rightarrow>
                   (if misconfigured self1 = Some True then
                      (case get_report env of
                         Inl e \<Rightarrow> (self1, Some e)
                       | Inr reported \<Rightarrow>
                           (self1, Some (PluginMisconfigurationError
                              (misconfiguration_message repr (prefix_str self1)
                                 (class_name self1) (plugin_type_attr self1) reported))))
                    else (self1, None)))))"

subsection \<open>Histories of an instance\<close>

text \<open>
  What can happen to an instance after construction: a connection notification on the
  type report (with the outcome of the read it may make), or an activation.
\<close>

datatype event = Connection bool "error + string" | Stage stage_env

definition step :: "(string \<Rightarrow> string) \<Rightarrow> plugin \<Rightarrow> event \<Rightarrow> plugin" where
  "step repr self ev =
     (case ev of
        Connection connected_arg plugin_type_get \<Rightarrow>
          fst (plugin_type_connected self connected_arg plugin_type_get)
      | Stage env \<Rightarrow> fst (stage repr self env))"

definition run :: "(string \<Rightarrow> string) \<Rightarrow> plugin \<Rightarrow> event list \<Rightarrow> plugin" where
  "run repr self evs = foldl (step repr) self evs"

subsection \<open>Example instances\<close>

text \<open>
  A quoting function standing for \<^verbatim>\<open>repr\<close> on strings without quotes or escapes, a
  statistics plugin nested under a detector with a camera, and an instance of a class
  that declares no type, each as its constructor leaves it.
\<close>

definition example_repr :: "string \<Rightarrow> string" where
  "example_repr s = CHR 0x27 # s @ [CHR 0x27]"

definition example_stats :: plugin where
  "example_stats =
     \<lparr>prefix_str = ''13SIM1:Stats1:'', class_name = ''StatsPlugin'',
      plugin_type_attr = Some ''NDPluginStats'', misconfigured = None,
      stage_sigs = [(''enable'', IntV 1), (''blocking_callbacks'', StrV ''Yes''),
                    (''parent.cam.array_callbacks'', IntV 1)],
      logged = []\<rparr>"

definition example_base :: plugin where
  "example_base =
     \<lparr>prefix_str = ''13SIM1:Plugin1:'', class_name = ''PluginBase'',
      plugin_type_attr = None, misconfigured = Some False,
      stage_sigs = [(''enable'', IntV 1), (''blocking_callbacks'', StrV ''Yes'')],
      logged = []\<rparr>"

text \<open>
  An event keeps the verdict \<open>b\<close> of a plugin of declared type \<open>t\<close>: a notification
  that reads a report must compare it to the same result.
\<close>

definition report_agrees :: "string \<Rightarrow> bool \<Rightarrow> event \<Rightarrow> bool" where
  "report_agrees t b ev =
     (case ev of
        Connection c (Inr reported) \<Rightarrow> (if c then (\<not> prefix t reported) = b else True)
      | _ \<Rightarrow> True)"

text \<open>
  Answers of the world to an activation: every call returns and the type report reads
  \<open>reported\<close>; every call returns but the reads of the type report raise \<open>e\<close>.
\<close>

definition env_ok :: "string \<Rightarrow> stage_env" where
  "env_ok reported =
     \<lparr>super_stage = None, wait_for_connection = None,
      get_check = Inr reported, get_report = Inr reported\<rparr>"

definition env_read_fails :: "error \<Rightarrow> stage_env" where
  "env_read_fails e =
     \<lparr>super_stage = None, wait_for_connection = None,
      get_check = Inl e, get_report = Inl e\<rparr>"

text \<open>The statistics plugin after its first notification has read a matching report.\<close>

definition confirmed_stats :: plugin where
  "confirmed_stats = fst (plugin_type_connected example_stats True (Inr ''NDPluginStats 1.9.1''))"

subsection \<open>Applying the staging directives\<close>

text \<open>
  Modelled from the spec: the inherited \<^verbatim>\<open>stage()\<close> that applies the directives
  (\<^verbatim>\<open>ophyd/device.py\<close>) is not among the sources. The spec (4.3) has it "apply every
  directive in insertion order, reading back each remote point after writing and failing
  if it does not converge to the written value within a bounded wait". \<open>converges\<close>
  says whether a point takes the written value within the wait; the result is the list
  of writes issued and the failure, if any.
\<close>

fun apply_directives ::
  "(string \<Rightarrow> stage_val \<Rightarrow> bool) \<Rightarrow> (string \<times> stage_val) list \<Rightarrow>
   (string \<times> stage_val) list \<times> error option" where
  "apply_directives converges [] = ([], None)"
| "apply_directives converges ((k, v) # sigs) =
     (if converges k v
      then (let (ws, r) = apply_directives converges sigs in ((k, v) # ws, r))
      else ([(k, v)], Some TimeoutError))"

subsection \<open>Upstream resolution\<close>

text \<open>
  What \<^verbatim>\<open>ad_root.get_plugin_by_asyn_port\<close> can return: a plugin (an instance of
  \<^verbatim>\<open>PluginBase\<close>, which has the property \<^verbatim>\<open>_asyn_pipeline\<close>), another device of the
  tree such as the camera (which has not), or \<^verbatim>\<open>None\<close>. Plugins and devices are named
  by numbers.
\<close>

datatype obj = Plugin nat | Device nat | NoneObj

text \<open>
  The device tree as the methods below see it: the outcome of
  \<^verbatim>\<open>self.nd_array_port.get()\<close> for each plugin, the port index of the root, and what
  the inherited \<^verbatim>\<open>read_configuration()\<close> and \<^verbatim>\<open>describe_configuration()\<close> of the
  device base class return for each object (its own configuration, in its order).
\<close>

record ('v, 'd) ad_tree =
  nd_array_port_get :: "nat \<Rightarrow> error + string"
  get_plugin_by_asyn_port :: "string \<Rightarrow> obj"
  device_read_configuration :: "obj \<Rightarrow> (string \<times> 'v) list"
  device_describe_configuration :: "obj \<Rightarrow> (string \<times> 'd) list"

text \<open>The property \<^verbatim>\<open>PluginBase.source_plugin\<close>.\<close>

definition source_plugin :: "('v, 'd) ad_tree \<Rightarrow> nat \<Rightarrow> error + obj" where
  "source_plugin T self =
     (case nd_array_port_get T self of
        Inl e \<Rightarrow> Inl e
      | Inr source_port \<Rightarrow> Inr (get_plugin_by_asyn_port T source_port))"

text \<open>
  The property \<^verbatim>\<open>PluginBase._asyn_pipeline\<close>. The first argument is the number of nested
  evaluations the interpreter still allows: the source does not detect a cycle, and
  Python ends an unbounded recursion with \<^verbatim>\<open>RecursionError\<close>.
  \<^verbatim>\<open>hasattr(parent, '_asyn_pipeline')\<close> evaluates the property of a plugin and answers
  \<^verbatim>\<open>False\<close> when that raises \<^verbatim>\<open>AttributeError\<close> (any other exception passes
  through); when it answers \<^verbatim>\<open>True\<close> the property is evaluated a second time.
\<close>

fun asyn_pipeline :: "nat \<Rightarrow> ('v, 'd) ad_tree \<Rightarrow> nat \<Rightarrow> error + obj list" where
  "asyn_pipeline 0 T self = Inl RecursionError"
| "asyn_pipeline (Suc n) T self =
     (case nd_array_port_get T self of
        Inl e \<Rightarrow> Inl e
      | Inr port \<Rightarrow>
          (let parent = get_plugin_by_asyn_port T port
           in (case parent of
                 Plugin q \<Rightarrow>
                   (case asyn_pipeline n T q of
                      Inl e \<Rightarrow> (if e = AttributeError then Inr [parent, Plugin self] else Inl e)
                    | Inr _ \<Rightarrow>
                        (case asyn_pipeline n T q of
                           Inl e \<Rightarrow> Inl e
                         | Inr chain \<Rightarrow> Inr (chain @ [Plugin self])))
               | Device d \<Rightarrow> Inr [parent, Plugin self]
               | NoneObj \<Rightarrow> Inr [parent, Plugin self])))"

text \<open>
  \<^verbatim>\<open>PluginBase.read_configuration\<close> and \<^verbatim>\<open>PluginBase.describe_configuration\<close>: the
  plugin's own configuration, updated with what the same method of the source plugin
  returns. On a device that is not a plugin the method is the inherited one; on
  \<^verbatim>\<open>None\<close> the attribute lookup raises.
\<close>

fun read_configuration :: "nat \<Rightarrow> ('v, 'd) ad_tree \<Rightarrow> nat \<Rightarrow> error + (string \<times> 'v) list" where
  "read_configuration 0 T self = Inl RecursionError"
| "read_configuration (Suc n) T self =
     (let ret = device_read_configuration T (Plugin self)
      in (case source_plugin T self of
            Inl e \<Rightarrow> Inl e
          | Inr src \<Rightarrow>
              (case (case src of
                       Plugin q \<Rightarrow> read_configuration n T q
                     | Device d \<Rightarrow> Inr (device_read_configuration T src)
                     | NoneObj \<Rightarrow> Inl AttributeError) of
                 Inl e \<Rightarrow> Inl e
               | Inr other \<Rightarrow> Inr (od_update ret other))))"

fun describe_configuration :: "nat \<Rightarrow> ('v, 'd) ad_tree \<Rightarrow> nat \<Rightarrow> error + (string \<times> 'd) list" where
  "describe_configuration 0 T self = Inl RecursionError"
| "describe_configuration (Suc n) T self =
     (let ret = device_describe_configuration T (Plugin self)
      in (case source_plugin T self of
            Inl e \<Rightarrow> Inl e
          | Inr src \<Rightarrow>
              (case (case src of
                       Plugin q \<Rightarrow> describe_configuration n T q
                     | Device d \<Rightarrow> Inr (device_describe_configuration T src)
                     | NoneObj \<Rightarrow> Inl AttributeError) of
                 Inl e \<Rightarrow> Inl e
               | Inr other \<Rightarrow> Inr (od_update ret other))))"

text \<open>
  The merge as the specification words it: ancestors first, the descendant's value on a
  colliding field name.
\<close>

definition merged_configuration_spec ::
  "(string \<times> 'v) list \<Rightarrow> (string \<times> 'v) list \<Rightarrow> (string \<times> 'v) list" where
  "merged_configuration_spec upstream downstream = od_update upstream downstream"

text \<open>
  A detector whose camera (device 0, port \<open>CAM\<close>) feeds a region-of-interest plugin
  (plugin 1, port \<open>ROI1\<close>), which feeds a statistics plugin (plugin 2).
\<close>

definition example_tree :: "(string, string) ad_tree" where
  "example_tree =
     \<lparr>nd_array_port_get = (\<lambda>p. if p = 2 then Inr ''ROI1'' else Inr ''CAM''),
      get_plugin_by_asyn_port =
        (\<lambda>port. if port = ''CAM'' then Device 0
                 else if port = ''ROI1'' then Plugin 1
                 else if port = ''STATS1'' then Plugin 2 else NoneObj),
      device_read_configuration =
        (\<lambda>x. case x of
           Device d \<Rightarrow> [(''cam_model'', ''sim''), (''port_name'', ''CAM'')]
         | Plugin q \<Rightarrow>
             (if q = 1 then [(''roi_enable'', ''1''), (''port_name'', ''ROI1'')]
              else [(''port_name'', ''STATS1'')])
         | NoneObj \<Rightarrow> []),
      device_describe_configuration =
        (\<lambda>x. case x of
           Device d \<Rightarrow> [(''cam_model'', ''string''), (''port_name'', ''string'')]
         | Plugin q \<Rightarrow>
             (if q = 1 then [(''roi_enable'', ''integer''), (''port_name'', ''string'')]
              else [(''port_name'', ''string'')])
         | NoneObj \<Rightarrow> [])\<rparr>"

subsection \<open>Registry and discovery\<close>

text \<open>
  The regular expressions of the module, \<^verbatim>\<open>r'Stats\d:'\<close> and its like, are sequences of
  literal characters and the class \<^verbatim>\<open>\d\<close> (on the characters of a process-variable name,
  the decimal digits). \<^verbatim>\<open>re.search\<close> looks for a match at every position of the string.
\<close>

datatype re_atom = Lit char | Digit

definition is_digit :: "char \<Rightarrow> bool" where
  "is_digit c = (c \<in> set ''0123456789'')"

fun match_atom :: "re_atom \<Rightarrow> char \<Rightarrow> bool" where
  "match_atom (Lit a) c = (a = c)"
| "match_atom Digit c = is_digit c"

fun re_match :: "re_atom list \<Rightarrow> string \<Rightarrow> bool" where
  "re_match [] s = True"
| "re_match (a # as) [] = False"
| "re_match (a # as) (c # cs) = (match_atom a c \<and> re_match as cs)"

fun re_search :: "re_atom list \<Rightarrow> string \<Rightarrow> bool" where
  "re_search re [] = re_match re []"
| "re_search re (c # cs) = (re_match re (c # cs) \<or> re_search re cs)"

text \<open>
  A plugin class as discovery sees it: its name and the class attributes
  \<^verbatim>\<open>_plugin_type\<close> and \<^verbatim>\<open>_suffix_re\<close> (both \<^verbatim>\<open>None\<close> in \<^verbatim>\<open>PluginBase\<close>).
\<close>

record plugin_class =
  cls_name :: string
  cls_plugin_type :: "string option"
  cls_suffix_re :: "re_atom list option"

text \<open>
  The module dictionary \<^verbatim>\<open>_plugin_class\<close>, in insertion order, and the decorator
  \<^verbatim>\<open>register_plugin\<close>.
\<close>

type_synonym registry = "(string option \<times> plugin_class) list"

definition register_plugin :: "plugin_class \<Rightarrow> registry \<Rightarrow> registry" where
  "register_plugin cls reg = od_setitem (cls_plugin_type cls) cls reg"

text \<open>The pattern \<^verbatim>\<open>r'<name>\d:'\<close> and a class declared with a type and such a pattern.\<close>

definition suffix_pattern :: "string \<Rightarrow> re_atom list" where
  "suffix_pattern name = map Lit name @ [Digit, Lit (CHR '':'')]"

definition declared_class :: "string \<Rightarrow> string \<Rightarrow> string \<Rightarrow> plugin_class" where
  "declared_class name ptype sfx =
     \<lparr>cls_name = name, cls_plugin_type = Some ptype, cls_suffix_re = Some (suffix_pattern sfx)\<rparr>"

text \<open>The registry after the module is loaded: its decorated classes, in source order.\<close>

definition module_registry :: registry where
  "module_registry =
     foldl (\<lambda>reg cls. register_plugin cls reg) []
       [declared_class ''ImagePlugin'' ''NDPluginStdArrays'' ''image'',
        declared_class ''StatsPlugin'' ''NDPluginStats'' ''Stats'',
        declared_class ''ColorConvPlugin'' ''NDPluginColorConvert'' ''CC'',
        declared_class ''ProcessPlugin'' ''NDPluginProcess'' ''Proc'',
        declared_class ''OverlayPlugin'' ''NDPluginOverlay'' ''Over'',
        declared_class ''ROIPlugin'' ''NDPluginROI'' ''ROI'',
        declared_class ''TransformPlugin'' ''NDPluginTransform'' ''Trans'',
        declared_class ''NetCDFPlugin'' ''NDFileNetCDF'' ''netCDF'',
        declared_class ''TIFFPlugin'' ''NDFileTIFF'' ''TIFF'',
        declared_class ''JPEGPlugin'' ''NDFileJPEG'' ''JPEG'',
        declared_class ''NexusPlugin'' ''NDPluginNexus'' ''Nexus'',
        declared_class ''HDF5Plugin'' ''NDFileHDF5'' ''HDF'',
        declared_class ''MagickPlugin'' ''NDFileMagick'' ''Magick'']"

text \<open>
  \<^verbatim>\<open>plugin_from_pvname\<close>: the loop over the items of the registry.
  \<^verbatim>\<open>re.search(None, pv)\<close> raises \<^verbatim>\<open>TypeError\<close>.
\<close>

fun plugin_from_pvname :: "registry \<Rightarrow> string \<Rightarrow> error + plugin_class option" where
  "plugin_from_pvname [] pv = Inr None"
| "plugin_from_pvname ((type_key, cls) # reg) pv =
     (case cls_suffix_re cls of
        None \<Rightarrow> Inl TypeError
      | Some re \<Rightarrow> (if re_search re pv then Inr (Some cls) else plugin_from_pvname reg pv))"

text \<open>\<^verbatim>\<open>str.split(sep)\<close> for a separator of one character.\<close>

fun py_split :: "char \<Rightarrow> string \<Rightarrow> string list" where
  "py_split sep [] = [[]]"
| "py_split sep (c # cs) =
     (if c = sep then [] # py_split sep cs
      else (case py_split sep cs of
              [] \<Rightarrow> [[c]]
            | w # ws \<Rightarrow> (c # w) # ws))"

text \<open>
  \<^verbatim>\<open>get_areadetector_plugin_class(prefix, timeout=2.0)\<close>. \<open>caget\<close> is channel access:
  the value read from a process variable within the timeout, \<open>None\<close> when the read does
  not complete. \<open>timeout_arg\<close> is \<open>None\<close> when the caller leaves the argument out.
\<close>

definition get_areadetector_plugin_class ::
  "registry \<Rightarrow> (string \<Rightarrow> real \<Rightarrow> string option) \<Rightarrow> string \<Rightarrow> real option \<Rightarrow>
   error + plugin_class" where
  "get_areadetector_plugin_class reg caget pfx timeout_arg =
     (let timeout = (case timeout_arg of None \<Rightarrow> 2 | Some t \<Rightarrow> t)
      in (case plugin_from_pvname reg pfx of
            Inl e \<Rightarrow> Inl e
          | Inr (Some cls) \<Rightarrow> Inr cls
          | Inr None \<Rightarrow>
              (let type_rbv = pfx @ ''PluginType_RBV''
               in (case caget type_rbv timeout of
                     None \<Rightarrow>
                       Inl (ValueError ''Unable to determine plugin type (caget timed out)'')
                   | Some type_str \<Rightarrow>
                       (case py_split (CHR '' '') type_str of
                          [] \<Rightarrow> Inl IndexError
                        | type0 # _ \<Rightarrow>
                            (case map_of reg (Some type0) of
                               Some cls \<Rightarrow> Inr cls
                             | None \<Rightarrow>
                                 Inl (ValueError
                                   (''Unable to determine plugin type (PluginType='' @ type0 @
                                    '')''))))))))"

text \<open>Whether the pattern of a class matches somewhere in a name.\<close>

definition class_matches :: "string \<Rightarrow> plugin_class \<Rightarrow> bool" where
  "class_matches pv cls =
     (case cls_suffix_re cls of None \<Rightarrow> False | Some re \<Rightarrow> re_search re pv)"

text \<open>
  Channel access for the examples: one prefix reports an HDF5 plugin with a version, one
  reports a type no class registers, every other read times out; the reads answer at the
  default timeout only.
\<close>

definition example_caget :: "string \<Rightarrow> real \<Rightarrow> string option" where
  "example_caget pv timeout =
     (if timeout \<noteq> 2 then None
      else if pv = ''13SIM1:hdf:PluginType_RBV'' then Some ''NDFileHDF5 ver1.2''
      else if pv = ''13SIM1:foo:PluginType_RBV'' then Some ''NDPluginFoo 1.0''
      else None)"

subsection \<open>The region-of-interest setter\<close>

text \<open>
  The remote points of a region-of-interest plugin, named by the attribute paths the
  setter uses: their values, and the writes issued so far, in order.
\<close>

record roi_remote =
  points :: "string \<rightharpoonup> int"
  issued :: "(string \<times> int) list"

text \<open>
  \<^verbatim>\<open>signal.set(value)\<close>: the signal layer is an argument, \<open>put\<close>, that says what a
  write of a value to a point does to the values of the points and whether the status
  object it returns completes successfully. A status is modelled by that boolean, and
  \<^verbatim>\<open>&\<close> on two statuses by conjunction.
\<close>

definition signal_set ::
  "(string \<Rightarrow> int \<Rightarrow> (string \<rightharpoonup> int) \<Rightarrow> (string \<rightharpoonup> int) \<times> bool) \<Rightarrow>
   string \<Rightarrow> int \<Rightarrow> roi_remote \<Rightarrow> roi_remote \<times> bool" where
  "signal_set put pt v w =
     (let (ps, ok) = put pt v (points w)
      in (w\<lparr>points := ps, issued := issued w @ [(pt, v)]\<rparr>, ok))"

text \<open>
  \<^verbatim>\<open>getattr(self, 'min_xyz.min_<direction>')\<close> and \<^verbatim>\<open>getattr(self, 'size.<direction>')\<close>:
  the components \<^verbatim>\<open>min_xyz\<close> and \<^verbatim>\<open>size\<close> declare the axes x, y and z.
\<close>

definition roi_getattr :: "string \<Rightarrow> string \<Rightarrow> error + string" where
  "roi_getattr stem direction =
     (if direction \<in> set [''x'', ''y'', ''z''] then Inr (stem @ direction)
      else Inl AttributeError)"

text \<open>\<^verbatim>\<open>value[i]\<close> for an index that is not negative.\<close>

definition py_index :: "'a list \<Rightarrow> nat \<Rightarrow> error + 'a" where
  "py_index xs i = (if i < length xs then Inr (xs ! i) else Inl IndexError)"

text \<open>
  The loop of \<^verbatim>\<open>ROIPlugin.set\<close> over \<^verbatim>\<open>region.items()\<close>, with the list \<^verbatim>\<open>status\<close>;
  a raise leaves the writes already issued in place.
\<close>

fun roi_set_loop ::
  "(string \<Rightarrow> int \<Rightarrow> (string \<rightharpoonup> int) \<Rightarrow> (string \<rightharpoonup> int) \<times> bool) \<Rightarrow>
   (string \<times> int list) list \<Rightarrow> roi_remote \<Rightarrow> bool list \<Rightarrow>
   roi_remote \<times> (error + bool list)" where
  "roi_set_loop put [] w status = (w, Inr status)"
| "roi_set_loop put ((direction, val) # region_items) w status =
     (case roi_getattr ''min_xyz.min_'' direction of
        Inl e \<Rightarrow> (w, Inl e)
      | Inr min_sig \<Rightarrow>
          (case py_index val 0 of
             Inl e \<Rightarrow> (w, Inl e)
           | Inr v0 \<Rightarrow>
               (let (w1, st1) = signal_set put min_sig v0 w
                in (case roi_getattr ''size.'' direction of
                      Inl e \<Rightarrow> (w1, Inl e)
                    | Inr size_sig \<Rightarrow>
                        (case py_index val 1 of
                           Inl e \<Rightarrow> (w1, Inl e)
                         | Inr v1 \<Rightarrow>
                             (let (w2, st2) = signal_set put size_sig v1 w1
                              in roi_set_loop put region_items w2 (status @ [st1, st2])))))))"

text \<open>
  \<^verbatim>\<open>functools.reduce(operator.and_, status)\<close>: without an initial value, an empty list
  raises \<^verbatim>\<open>TypeError\<close>.
\<close>

definition reduce_and :: "bool list \<Rightarrow> error + bool" where
  "reduce_and status =
     (case status of
        [] \<Rightarrow> Inl TypeError
      | s # ss \<Rightarrow> Inr (foldl (\<and>) s ss))"

text \<open>
  \<^verbatim>\<open>ROIPlugin.set(self, region)\<close>; \<open>None\<close> is Python's \<^verbatim>\<open>None\<close>, a dictionary is the
  list of its items. With \<^verbatim>\<open>region is None\<close> the local \<^verbatim>\<open>status\<close> is never assigned
  and the \<^verbatim>\<open>return\<close> statement reads it.
\<close>

definition ROIPlugin_set ::
  "(string \<Rightarrow> int \<Rightarrow> (string \<rightharpoonup> int) \<Rightarrow> (string \<rightharpoonup> int) \<times> bool) \<Rightarrow>
   (string \<times> int list) list option \<Rightarrow> roi_remote \<Rightarrow> roi_remote \<times> (error + bool)" where
  "ROIPlugin_set put region w =
     (case region of
        None \<Rightarrow> (w, Inl UnboundLocalError)
      | Some region_items \<Rightarrow>
          (case roi_set_loop put region_items w [] of
             (w', Inl e) \<Rightarrow> (w', Inl e)
           | (w', Inr status) \<Rightarrow> (w', reduce_and status)))"

text \<open>
  The writes the setter is to issue for a region, two per axis, and their effect when
  issued one after the other: the final values of the points and the outcome of each
  write.
\<close>

definition region_writes :: "(string \<times> int list) list \<Rightarrow> (string \<times> int) list" where
  "region_writes region_items =
     concat (map (\<lambda>(d, v). [(''min_xyz.min_'' @ d, v ! 0), (''size.'' @ d, v ! 1)]) region_items)"

fun run_writes ::
  "(string \<Rightarrow> int \<Rightarrow> (string \<rightharpoonup> int) \<Rightarrow> (string \<rightharpoonup> int) \<times> bool) \<Rightarrow>
   (string \<times> int) list \<Rightarrow> (string \<rightharpoonup> int) \<Rightarrow> (string \<rightharpoonup> int) \<times> bool list" where
  "run_writes put [] ps = (ps, [])"
| "run_writes put ((pt, v) # ws) ps =
     (let (ps1, ok) = put pt v ps;
          (ps2, oks) = run_writes put ws ps1
      in (ps2, ok # oks))"

text \<open>A region over the axes x, y, z whose values are pairs.\<close>

definition region_ok :: "(string \<times> int list) list \<Rightarrow> bool" where
  "region_ok region_items =
     list_all (\<lambda>(d, v). d \<in> set [''x'', ''y'', ''z''] \<and> length v = 2) region_items"

text \<open>
  A signal layer for the examples: the minimum of x rejects negative values, the size of
  x rejects values above 1024, every other write is accepted; an accepted write stores
  the value, a rejected one leaves the point as it was.
\<close>

definition example_put ::
  "string \<Rightarrow> int \<Rightarrow> (string \<rightharpoonup> int) \<Rightarrow> (string \<rightharpoonup> int) \<times> bool" where
  "example_put pt v ps =
     (if (pt = ''min_xyz.min_x'' \<and> v < 0) \<or> (pt = ''size.x'' \<and> 1024 < v) then (ps, False)
      else (ps(pt \<mapsto> v), True))"

definition example_remote :: roi_remote where
  "example_remote = \<lparr>points = [''min_xyz.min_x'' \<mapsto> 0, ''size.x'' \<mapsto> 512], issued = []\<rparr>"

section \<open>Properties\<close>

subsection \<open>Ordered dictionaries\<close>

lemma map_of_od_setitem: "map_of (od_setitem k v d) = (map_of d)(k \<mapsto> v)"
  by (induction d) (auto simp: fun_eq_iff)

lemma keys_od_setitem:
  "map fst (od_setitem k v d) = (if k \<in> fst ` set d then map fst d else map fst d @ [k])"
  by (induction d) force+

lemma distinct_od_setitem: "distinct (map fst d) \<Longrightarrow> distinct (map fst (od_setitem k v d))"
  by (simp add: keys_od_setitem)

lemma od_move_to_front_setitem:
  "od_move_to_front k (od_setitem k v d) = Inr ((k, v) # filter (\<lambda>kv. fst kv \<noteq> k) d)"
proof -
  have "filter (\<lambda>kv. fst kv \<noteq> k) (od_setitem k v d) = filter (\<lambda>kv. fst kv \<noteq> k) d"
    by (induction d) auto
  then show ?thesis
    by (simp add: od_move_to_front_def map_of_od_setitem)
qed

lemma callback_no_type:
  "plugin_type_attr self = None \<Longrightarrow> plugin_type_connected self c g = (self, None)"
  by (simp add: plugin_type_connected_def)

lemma callback_read:
  "plugin_type_attr self = Some t \<Longrightarrow>
   misconfigured (fst (plugin_type_connected self True (Inr reported))) = Some (\<not> prefix t reported)
   \<and> snd (plugin_type_connected self True (Inr reported)) = None"
  by (simp add: plugin_type_connected_def Let_def)

lemma stage_confirmed:
  "misconfigured self = Some b \<Longrightarrow> fst (stage repr self env) = self"
  by (simp add: stage_def split: option.splits sum.splits)

lemma step_no_type:
  "plugin_type_attr self = None \<Longrightarrow> misconfigured self = Some False \<Longrightarrow> step repr self ev = self"
  by (cases ev) (simp_all add: step_def callback_no_type stage_confirmed [where b = False])

lemma run_no_type:
  "plugin_type_attr self = None \<Longrightarrow> misconfigured self = Some False \<Longrightarrow> run repr self evs = self"
  unfolding run_def by (induction evs) (simp_all add: step_no_type)

lemma PluginBase_init_eq:
  "PluginBase_init pfx cls ptype super_sigs parent_cam =
     Inr \<lparr>prefix_str = pfx, class_name = cls, plugin_type_attr = ptype,
          misconfigured = (if ptype \<noteq> None then None else Some False),
          stage_sigs =
            (let sigs3 = ensure_blocking
                   ((''enable'', IntV 1) # filter (\<lambda>kv. fst kv \<noteq> ''enable'') super_sigs)
             in if parent_cam
                then od_update sigs3 [(''parent.cam.array_callbacks'', IntV 1)] else sigs3),
          logged = []\<rparr>"
  by (simp add: PluginBase_init_def enable_on_stage_def od_move_to_front_setitem Let_def)

subsection \<open>Type validation\<close>

text \<open>
  C1. For a plugin whose class declares an expected type, the callback that reads the
  live type report sets the state to confirmed-ok (\<open>Some False\<close>) when the reported
  string starts with the declared one, whatever follows it, and to confirmed-bad
  (\<open>Some True\<close>) otherwise, and raises nothing; such a plugin is constructed in the
  unknown state. A plugin whose class declares no type is constructed confirmed-ok and
  stays so through every history of notifications and activations.
\<close>

theorem type_check_outcome:
  "(plugin_type_attr self = Some t \<longrightarrow>
      misconfigured (fst (plugin_type_connected self True (Inr reported))) =
        (if prefix t reported then Some False else Some True) \<and>
      snd (plugin_type_connected self True (Inr reported)) = None) \<and>
   (\<exists>p. PluginBase_init pfx cls (Some t) super_sigs parent_cam = Inr p \<and>
        misconfigured p = None) \<and>
   (\<exists>p. PluginBase_init pfx cls None super_sigs parent_cam = Inr p \<and>
        (\<forall>evs. misconfigured (run repr p evs) = Some False))"
proof (intro conjI impI)
  assume t: "plugin_type_attr self = Some t"
  from callback_read [OF t, of reported]
  show "misconfigured (fst (plugin_type_connected self True (Inr reported))) =
        (if prefix t reported then Some False else Some True)"
    by simp
  from callback_read [OF t, of reported]
  show "snd (plugin_type_connected self True (Inr reported)) = None"
    by simp
next
  show "\<exists>p. PluginBase_init pfx cls (Some t) super_sigs parent_cam = Inr p \<and>
        misconfigured p = None"
    by (simp add: PluginBase_init_eq)
next
  show "\<exists>p. PluginBase_init pfx cls None super_sigs parent_cam = Inr p \<and>
        (\<forall>evs. misconfigured (run repr p evs) = Some False)"
    by (simp add: PluginBase_init_eq run_no_type)
qed

theorem type_check_outcome_witness:
  "plugin_type_attr example_stats = Some ''NDPluginStats'' \<and>
   misconfigured (fst (plugin_type_connected example_stats True (Inr ''NDPluginStats 1.9.1'')))
     = Some False \<and>
   misconfigured (fst (plugin_type_connected example_stats True (Inr ''NDPluginROI 1.9.1'')))
     = Some True \<and>
   PluginBase_init ''13SIM1:Stats1:'' ''StatsPlugin'' (Some ''NDPluginStats'') [] True
     = Inr example_stats \<and>
   PluginBase_init ''13SIM1:Plugin1:'' ''PluginBase'' None [] False = Inr example_base \<and>
   misconfigured (run example_repr example_base
     [Connection True (Inr ''NDPluginStats 1.9.1''),
      Stage \<lparr>super_stage = None, wait_for_connection = None,
             get_check = Inr ''NDPluginStats 1.9.1'', get_report = Inr ''NDPluginStats 1.9.1''\<rparr>])
     = Some False"
proof -
  have t: "plugin_type_attr example_stats = Some ''NDPluginStats''"
    by (simp add: example_stats_def)
  have i1: "PluginBase_init ''13SIM1:Stats1:'' ''StatsPlugin'' (Some ''NDPluginStats'') [] True
     = Inr example_stats"
    by (simp add: PluginBase_init_eq example_stats_def ensure_blocking_def)
  have i2: "PluginBase_init ''13SIM1:Plugin1:'' ''PluginBase'' None [] False = Inr example_base"
    by (simp add: PluginBase_init_eq example_base_def ensure_blocking_def)
  note a = type_check_outcome [of example_stats "''NDPluginStats''" "''NDPluginStats 1.9.1''"
      "''13SIM1:Plugin1:''" "''PluginBase''" "[]" False example_repr]
  note b = type_check_outcome [of example_stats "''NDPluginStats''" "''NDPluginROI 1.9.1''"
      "''13SIM1:Plugin1:''" "''PluginBase''" "[]" False example_repr]
  from a b t i1 i2 show ?thesis
    by simp
qed

subsection \<open>Activation and later notifications\<close>

lemma callback_skip:
  "plugin_type_connected self False g = (self, None)"
  "plugin_type_connected self c (Inl DestroyedError) = (self, None)"
  by (simp_all add: plugin_type_connected_def)

lemma callback_escalates:
  "plugin_type_attr self = Some t \<Longrightarrow> e \<noteq> DestroyedError \<Longrightarrow>
   plugin_type_connected self True (Inl e) = (self, Some e)"
  by (simp add: plugin_type_connected_def)

lemma callback_read_fields:
  "plugin_type_attr self = Some t \<Longrightarrow>
   prefix_str (fst (plugin_type_connected self True (Inr reported))) = prefix_str self \<and>
   class_name (fst (plugin_type_connected self True (Inr reported))) = class_name self \<and>
   plugin_type_attr (fst (plugin_type_connected self True (Inr reported))) = Some t"
  by (simp add: plugin_type_connected_def Let_def)

lemma stage_unknown_wait_fails:
  "misconfigured self = None \<Longrightarrow> super_stage env = None \<Longrightarrow> wait_for_connection env = Some e \<Longrightarrow>
   stage repr self env = (self, Some e)"
  by (simp add: stage_def)

lemma stage_unknown_check:
  assumes "misconfigured self = None" "super_stage env = None" "wait_for_connection env = None"
  shows "stage repr self env =
    (let (self1, raised) = plugin_type_connected self True (get_check env)
     in (case raised of
           Some e \<Rightarrow> (self1, Some e)
         | None \<Rightarrow>
             (if misconfigured self1 = Some True then
                (case get_report env of
                   Inl e \<Rightarrow> (self1, Some e)
                 | Inr reported \<Rightarrow>
                     (self1, Some (PluginMisconfigurationError
                        (misconfiguration_message repr (prefix_str self1)
                           (class_name self1) (plugin_type_attr self1) reported))))
              else (self1, None))))"
  using assms by (simp add: stage_def)

lemma stage_unknown_destroyed:
  "misconfigured self = None \<Longrightarrow> super_stage env = None \<Longrightarrow> wait_for_connection env = None \<Longrightarrow>
   get_check env = Inl DestroyedError \<Longrightarrow> stage repr self env = (self, None)"
  by (simp add: stage_unknown_check callback_skip)

lemma stage_unknown_escalates:
  "plugin_type_attr self = Some t \<Longrightarrow>
   misconfigured self = None \<Longrightarrow> super_stage env = None \<Longrightarrow> wait_for_connection env = None \<Longrightarrow>
   get_check env = Inl e \<Longrightarrow> e \<noteq> DestroyedError \<Longrightarrow> stage repr self env = (self, Some e)"
  by (simp add: stage_unknown_check callback_escalates)

lemma stage_unknown_read:
  assumes t: "plugin_type_attr self = Some t"
    and u: "misconfigured self = None" "super_stage env = None" "wait_for_connection env = None"
    and r: "get_check env = Inr reported"
  shows "misconfigured (fst (stage repr self env)) = Some (\<not> prefix t reported)"
    and "prefix t reported \<Longrightarrow> snd (stage repr self env) = None"
    and "\<not> prefix t reported \<Longrightarrow> get_report env = Inr reported' \<Longrightarrow>
         snd (stage repr self env) = Some (PluginMisconfigurationError
           (misconfiguration_message repr (prefix_str self) (class_name self) (Some t) reported'))"
    and "\<not> prefix t reported \<Longrightarrow> get_report env = Inl e \<Longrightarrow> snd (stage repr self env) = Some e"
proof -
  obtain self1 raised where p: "plugin_type_connected self True (Inr reported) = (self1, raised)"
    by (cases "plugin_type_connected self True (Inr reported)")
  from callback_read [OF t, of reported] p
  have m: "misconfigured self1 = Some (\<not> prefix t reported)" and n: "raised = None"
    by simp_all
  from callback_read_fields [OF t, of reported] p
  have f: "prefix_str self1 = prefix_str self" "class_name self1 = class_name self"
    "plugin_type_attr self1 = Some t"
    by simp_all
  note s = stage_unknown_check [OF u, of repr]
  show "misconfigured (fst (stage repr self env)) = Some (\<not> prefix t reported)"
    by (simp add: s r p m n split: sum.splits)
  show "prefix t reported \<Longrightarrow> snd (stage repr self env) = None"
    by (simp add: s r p m n)
  show "\<not> prefix t reported \<Longrightarrow> get_report env = Inr reported' \<Longrightarrow>
         snd (stage repr self env) = Some (PluginMisconfigurationError
           (misconfiguration_message repr (prefix_str self) (class_name self) (Some t) reported'))"
    by (simp add: s r p m n f)
  show "\<not> prefix t reported \<Longrightarrow> get_report env = Inl e \<Longrightarrow> snd (stage repr self env) = Some e"
    by (simp add: s r p m n)
qed

lemma message_identifies:
  "sublist (repr pfx) (misconfiguration_message repr pfx cls (Some t) reported)"
  "sublist (repr cls) (misconfiguration_message repr pfx cls (Some t) reported)"
  "sublist (repr t) (misconfiguration_message repr pfx cls (Some t) reported)"
  "sublist (repr reported) (misconfiguration_message repr pfx cls (Some t) reported)"
proof -
  let ?m = "misconfiguration_message repr pfx cls (Some t) reported"
  have "?m = ''Plugin prefix '' @ repr pfx @
      ('': trying to use '' @ repr cls @ '' class (with plugin type='' @ repr t @
       '') but the plugin reports it is of type '' @ repr reported)"
    by (simp add: misconfiguration_message_def)
  then show "sublist (repr pfx) ?m"
    unfolding sublist_def by blast
  have "?m = (''Plugin prefix '' @ repr pfx @ '': trying to use '') @ repr cls @
      ('' class (with plugin type='' @ repr t @
       '') but the plugin reports it is of type '' @ repr reported)"
    by (simp add: misconfiguration_message_def)
  then show "sublist (repr cls) ?m"
    unfolding sublist_def by blast
  have "?m = (''Plugin prefix '' @ repr pfx @ '': trying to use '' @ repr cls @
       '' class (with plugin type='') @ repr t @
      ('') but the plugin reports it is of type '' @ repr reported)"
    by (simp add: misconfiguration_message_def)
  then show "sublist (repr t) ?m"
    unfolding sublist_def by blast
  have "?m = (''Plugin prefix '' @ repr pfx @ '': trying to use '' @ repr cls @
       '' class (with plugin type='' @ repr t @
       '') but the plugin reports it is of type '') @ repr reported @ []"
    by (simp add: misconfiguration_message_def)
  then show "sublist (repr reported) ?m"
    unfolding sublist_def by blast
qed

lemma callback_attr:
  "plugin_type_attr (fst (plugin_type_connected self c g)) = plugin_type_attr self"
  by (simp add: plugin_type_connected_def Let_def split: sum.splits)

lemma callback_confirmed:
  "misconfigured self = Some b \<Longrightarrow>
   \<exists>b'. misconfigured (fst (plugin_type_connected self c g)) = Some b'"
  by (simp add: plugin_type_connected_def Let_def split: sum.splits)

lemma step_attr: "plugin_type_attr (step repr self ev) = plugin_type_attr self"
proof (cases ev)
  case (Connection c g)
  then show ?thesis by (simp add: step_def callback_attr)
next
  case (Stage env)
  have "fst (stage repr self env) = self \<or>
        fst (stage repr self env) = fst (plugin_type_connected self True (get_check env))"
    by (auto simp: stage_def split: option.splits sum.splits prod.splits)
  with Stage show ?thesis by (auto simp: step_def callback_attr)
qed

lemma step_confirmed:
  "misconfigured self = Some b \<Longrightarrow> \<exists>b'. misconfigured (step repr self ev) = Some b'"
  by (cases ev) (simp_all add: step_def callback_confirmed stage_confirmed)

lemma run_confirmed:
  "misconfigured self = Some b \<Longrightarrow> \<exists>b'. misconfigured (run repr self evs) = Some b'"
proof (induction evs arbitrary: self b)
  case Nil
  then show ?case by (simp add: run_def)
next
  case (Cons ev evs)
  from step_confirmed [OF Cons.prems, of repr ev]
  obtain b' where "misconfigured (step repr self ev) = Some b'" by blast
  from Cons.IH [OF this] show ?case by (simp add: run_def)
qed

lemma step_agrees:
  assumes t: "plugin_type_attr self = Some t" and b: "misconfigured self = Some b"
    and a: "report_agrees t b ev"
  shows "misconfigured (step repr self ev) = Some b"
proof (cases ev)
  case (Stage env)
  with b show ?thesis by (simp add: step_def stage_confirmed)
next
  case (Connection c g)
  show ?thesis
  proof (cases g)
    case (Inl e)
    with Connection b show ?thesis
      by (simp add: step_def plugin_type_connected_def)
  next
    case (Inr reported)
    with Connection a t b show ?thesis
      by (cases c) (simp_all add: step_def report_agrees_def plugin_type_connected_def Let_def)
  qed
qed

lemma run_agrees:
  "plugin_type_attr self = Some t \<Longrightarrow> misconfigured self = Some b \<Longrightarrow>
   list_all (report_agrees t b) evs \<Longrightarrow> misconfigured (run repr self evs) = Some b"
proof (induction evs arbitrary: self)
  case Nil
  then show ?case by (simp add: run_def)
next
  case (Cons ev evs)
  from Cons.prems have a: "report_agrees t b ev" and r: "list_all (report_agrees t b) evs"
    by simp_all
  have "misconfigured (run repr (step repr self ev) evs) = Some b"
    by (rule Cons.IH) (simp_all add: step_attr Cons.prems step_agrees [OF Cons.prems(1,2) a] r)
  then show ?case by (simp add: run_def)
qed

text \<open>
  C2, as the code has it. For a plugin with a declared type whose state is unknown, and
  once the inherited activation has returned, \<open>stage\<close> first waits for the type report
  to connect (a failed wait is raised and nothing is checked), then runs the type check.
  When the check reads a report, the state becomes confirmed-ok or confirmed-bad by the
  prefix comparison; confirmed-ok lets activation return, confirmed-bad raises
  \<^verbatim>\<open>PluginMisconfigurationError\<close> whose message contains the \<^verbatim>\<open>repr\<close> of the remote
  prefix, of the class name, of the declared type and of the type a fresh read of the report
  gives. When the check's read hits a destroyed handle, the state stays unknown and
  activation returns without an error.
\<close>

theorem stage_resolves_unknown:
  "plugin_type_attr self = Some t \<and> misconfigured self = None \<and> super_stage env = None \<longrightarrow>
     (wait_for_connection env = Some e \<longrightarrow> stage repr self env = (self, Some e)) \<and>
     (wait_for_connection env = None \<longrightarrow>
        (get_check env = Inl DestroyedError \<longrightarrow> stage repr self env = (self, None)) \<and>
        (get_check env = Inr reported \<longrightarrow>
           misconfigured (fst (stage repr self env)) = Some (\<not> prefix t reported) \<and>
           (prefix t reported \<longrightarrow> snd (stage repr self env) = None) \<and>
           (\<not> prefix t reported \<and> get_report env = Inr reported' \<longrightarrow>
              snd (stage repr self env) = Some (PluginMisconfigurationError
                (misconfiguration_message repr (prefix_str self) (class_name self) (Some t)
                   reported')) \<and>
              sublist (repr (prefix_str self))
                (misconfiguration_message repr (prefix_str self) (class_name self) (Some t)
                   reported') \<and>
              sublist (repr (class_name self))
                (misconfiguration_message repr (prefix_str self) (class_name self) (Some t)
                   reported') \<and>
              sublist (repr t)
                (misconfiguration_message repr (prefix_str self) (class_name self) (Some t)
                   reported') \<and>
              sublist (repr reported')
                (misconfiguration_message repr (prefix_str self) (class_name self) (Some t)
                   reported'))))"
  by (intro impI conjI; (elim conjE)?)
     (simp_all add: stage_unknown_wait_fails stage_unknown_destroyed stage_unknown_read
        message_identifies)

text \<open>
  The claim C2 as written fails: with a destroyed handle at the check's read, activation of
  a plugin in the unknown state returns normally and the state is still unknown, not a
  terminal confirmed one.
\<close>

theorem stage_destroyed_stays_unknown:
  "plugin_type_attr example_stats = Some ''NDPluginStats'' \<and>
   misconfigured example_stats = None \<and>
   misconfigured (fst (stage example_repr example_stats (env_read_fails DestroyedError))) = None \<and>
   snd (stage example_repr example_stats (env_read_fails DestroyedError)) = None"
  by (simp add: example_stats_def env_read_fails_def stage_def plugin_type_connected_def)

theorem stage_resolves_unknown_witness:
  "plugin_type_attr example_stats = Some ''NDPluginStats'' \<and>
   misconfigured example_stats = None \<and>
   super_stage (env_ok ''NDPluginROI 1.9.1'') = None \<and>
   wait_for_connection (env_ok ''NDPluginROI 1.9.1'') = None \<and>
   get_check (env_ok ''NDPluginROI 1.9.1'') = Inr ''NDPluginROI 1.9.1'' \<and>
   \<not> prefix ''NDPluginStats'' ''NDPluginROI 1.9.1'' \<and>
   misconfigured (fst (stage example_repr example_stats (env_ok ''NDPluginROI 1.9.1''))) =
     Some True \<and>
   snd (stage example_repr example_stats (env_ok ''NDPluginROI 1.9.1'')) =
     Some (PluginMisconfigurationError
       (''Plugin prefix '' @ example_repr ''13SIM1:Stats1:'' @ '': trying to use '' @
        example_repr ''StatsPlugin'' @ '' class (with plugin type='' @
        example_repr ''NDPluginStats'' @ '') but the plugin reports it is of type '' @
        example_repr ''NDPluginROI 1.9.1''))"
proof -
  have h: "plugin_type_attr example_stats = Some ''NDPluginStats'' \<and>
      misconfigured example_stats = None \<and> super_stage (env_ok ''NDPluginROI 1.9.1'') = None"
    by (simp add: example_stats_def env_ok_def)
  have w: "wait_for_connection (env_ok ''NDPluginROI 1.9.1'') = None"
    and g: "get_check (env_ok ''NDPluginROI 1.9.1'') = Inr ''NDPluginROI 1.9.1''"
    and r: "get_report (env_ok ''NDPluginROI 1.9.1'') = Inr ''NDPluginROI 1.9.1''"
    and n: "\<not> prefix ''NDPluginStats'' ''NDPluginROI 1.9.1''"
    by (simp_all add: env_ok_def)
  have f: "prefix_str example_stats = ''13SIM1:Stats1:''" "class_name example_stats = ''StatsPlugin''"
    by (simp_all add: example_stats_def)
  from stage_resolves_unknown [of example_stats "''NDPluginStats''" "env_ok ''NDPluginROI 1.9.1''"
      TimeoutError example_repr "''NDPluginROI 1.9.1''" "''NDPluginROI 1.9.1''"] h w g r n
  have "misconfigured (fst (stage example_repr example_stats (env_ok ''NDPluginROI 1.9.1''))) =
     Some True"
    and "snd (stage example_repr example_stats (env_ok ''NDPluginROI 1.9.1'')) =
     Some (PluginMisconfigurationError
       (misconfiguration_message example_repr (prefix_str example_stats)
         (class_name example_stats) (Some ''NDPluginStats'') ''NDPluginROI 1.9.1''))"
    by simp_all
  with h w g n f show ?thesis
    by (simp add: misconfiguration_message_def)
qed

text \<open>
  C5, as the code has it. For a plugin with a declared type, the first notification that
  reads a report takes the state from unknown to a confirmed value; a confirmed state
  never returns to unknown, and an activation never changes it; every later notification
  that reads a report compares again and stores the result, so the state keeps its value
  through every history whose reports compare as the first one did.
\<close>

theorem confirmed_state_history:
  "plugin_type_attr self = Some t \<longrightarrow>
     (misconfigured self = None \<longrightarrow>
        misconfigured (fst (plugin_type_connected self True (Inr reported))) =
          Some (\<not> prefix t reported)) \<and>
     (misconfigured self = Some b \<longrightarrow>
        fst (stage repr self env) = self \<and>
        misconfigured (fst (plugin_type_connected self True (Inr reported))) =
          Some (\<not> prefix t reported) \<and>
        (\<forall>evs. misconfigured (run repr self evs) \<noteq> None) \<and>
        (\<forall>evs. list_all (report_agrees t b) evs \<longrightarrow>
           misconfigured (run repr self evs) = Some b))"
proof (intro impI conjI allI)
  assume t: "plugin_type_attr self = Some t"
  from callback_read [OF t, of reported]
  show "misconfigured (fst (plugin_type_connected self True (Inr reported))) =
          Some (\<not> prefix t reported)"
    by simp
  then show "misconfigured (fst (plugin_type_connected self True (Inr reported))) =
          Some (\<not> prefix t reported)" .
  assume b: "misconfigured self = Some b"
  show "fst (stage repr self env) = self"
    by (rule stage_confirmed [OF b])
  fix evs
  from run_confirmed [OF b, of repr evs]
  show "misconfigured (run repr self evs) \<noteq> None"
    by auto
  assume "list_all (report_agrees t b) evs"
  then show "misconfigured (run repr self evs) = Some b"
    by (rule run_agrees [OF t b])
qed

text \<open>
  The claim C5 as written fails: a later connection notification changes a confirmed
  state when the report it reads compares differently.
\<close>

theorem confirmed_state_changes_on_new_report:
  "plugin_type_attr example_stats = Some ''NDPluginStats'' \<and>
   misconfigured (run example_repr example_stats
      [Connection True (Inr ''NDPluginStats 1.9.1'')]) = Some False \<and>
   misconfigured (run example_repr example_stats
      [Connection True (Inr ''NDPluginStats 1.9.1''),
       Connection True (Inr ''NDPluginROI 1.9.1'')]) = Some True"
  by (simp add: example_stats_def run_def step_def plugin_type_connected_def Let_def)

theorem confirmed_state_history_witness:
  "plugin_type_attr confirmed_stats = Some ''NDPluginStats'' \<and>
   misconfigured confirmed_stats = Some False \<and>
   fst (stage example_repr confirmed_stats (env_ok ''NDPluginROI 1.9.1'')) = confirmed_stats \<and>
   list_all (report_agrees ''NDPluginStats'' False)
     [Connection False (Inr ''NDPluginROI 1.9.1''), Connection True (Inl DestroyedError),
      Stage (env_ok ''NDPluginROI 1.9.1''), Connection True (Inr ''NDPluginStats 3.2'')] \<and>
   misconfigured (run example_repr confirmed_stats
     [Connection False (Inr ''NDPluginROI 1.9.1''), Connection True (Inl DestroyedError),
      Stage (env_ok ''NDPluginROI 1.9.1''), Connection True (Inr ''NDPluginStats 3.2'')])
     = Some False \<and>
   misconfigured (fst (plugin_type_connected confirmed_stats True (Inr ''NDPluginROI 1.9.1'')))
     = Some True"
proof -
  have t: "plugin_type_attr confirmed_stats = Some ''NDPluginStats''"
    and b: "misconfigured confirmed_stats = Some False"
    by (simp_all add: confirmed_stats_def example_stats_def plugin_type_connected_def Let_def)
  have a: "list_all (report_agrees ''NDPluginStats'' False)
     [Connection False (Inr ''NDPluginROI 1.9.1''), Connection True (Inl DestroyedError),
      Stage (env_ok ''NDPluginROI 1.9.1''), Connection True (Inr ''NDPluginStats 3.2'')]"
    by (simp add: report_agrees_def)
  note h = confirmed_state_history [of confirmed_stats "''NDPluginStats''" "''NDPluginROI 1.9.1''"
      False example_repr "env_ok ''NDPluginROI 1.9.1''"]
  from h t b a show ?thesis
    by simp
qed

text \<open>
  C6. For a plugin with a declared type, the type check is skipped, the instance (and so
  an unknown state) is left as it was and nothing is raised, when the read of the type
  report raises \<^verbatim>\<open>DestroyedError\<close> and when the notification says the point is not
  connected. Every other exception of the read is raised to the caller, by the callback and
  by an activation that runs the check; a failed wait for the connection is raised by the
  activation as well.
\<close>

theorem type_check_failures:
  "plugin_type_attr self = Some t \<longrightarrow>
     plugin_type_connected self True (Inl DestroyedError) = (self, None) \<and>
     plugin_type_connected self False g = (self, None) \<and>
     (e \<noteq> DestroyedError \<longrightarrow> plugin_type_connected self True (Inl e) = (self, Some e)) \<and>
     (misconfigured self = None \<and> super_stage env = None \<longrightarrow>
        (wait_for_connection env = Some e' \<longrightarrow> stage repr self env = (self, Some e')) \<and>
        (wait_for_connection env = None \<and> get_check env = Inl DestroyedError \<longrightarrow>
           stage repr self env = (self, None)) \<and>
        (wait_for_connection env = None \<and> get_check env = Inl e \<and> e \<noteq> DestroyedError \<longrightarrow>
           stage repr self env = (self, Some e)))"
  by (intro impI conjI; (elim conjE)?)
     (simp_all add: callback_skip callback_escalates stage_unknown_wait_fails
        stage_unknown_destroyed stage_unknown_escalates)

theorem type_check_failures_witness:
  "plugin_type_attr example_stats = Some ''NDPluginStats'' \<and>
   misconfigured example_stats = None \<and>
   plugin_type_connected example_stats True (Inl DestroyedError) = (example_stats, None) \<and>
   plugin_type_connected example_stats False (Inr ''NDPluginROI 1.9.1'') = (example_stats, None) \<and>
   plugin_type_connected example_stats True (Inl TimeoutError) = (example_stats, Some TimeoutError) \<and>
   stage example_repr example_stats (env_read_fails DestroyedError) = (example_stats, None) \<and>
   stage example_repr example_stats (env_read_fails TimeoutError) = (example_stats, Some TimeoutError)"
proof -
  have t: "plugin_type_attr example_stats = Some ''NDPluginStats''"
    and u: "misconfigured example_stats = None"
    by (simp_all add: example_stats_def)
  note a = type_check_failures [of example_stats "''NDPluginStats''" "Inr ''NDPluginROI 1.9.1''"
      TimeoutError "env_read_fails TimeoutError" TimeoutError example_repr]
  note b = type_check_failures [of example_stats "''NDPluginStats''" "Inr ''NDPluginROI 1.9.1''"
      TimeoutError "env_read_fails DestroyedError" TimeoutError example_repr]
  from a b t u show ?thesis
    by (simp add: env_read_fails_def)
qed

subsection \<open>The staging directive set\<close>

lemma od_setitem_Cons_other:
  "k \<noteq> k0 \<Longrightarrow> od_setitem k v ((k0, v0) # d) = (k0, v0) # od_setitem k v d"
  by simp

lemma keys_od_setitem_set: "fst ` set (od_setitem k v d) = insert k (fst ` set d)"
proof -
  have "set (map fst (od_setitem k v d)) = insert k (set (map fst d))"
    by (auto simp: keys_od_setitem)
  then show ?thesis by simp
qed

lemma apply_directives_prefix: "prefix (fst (apply_directives converges sigs)) sigs"
  by (induction converges sigs rule: apply_directives.induct) (auto split: prod.splits)

lemma apply_directives_Cons:
  "\<exists>ws. fst (apply_directives converges (kv # sigs)) = kv # ws \<and> prefix ws sigs"
proof (cases kv)
  case (Pair k v)
  show ?thesis
  proof (cases "converges k v")
    case True
    with Pair apply_directives_prefix [of converges sigs] show ?thesis
      by (auto split: prod.splits)
  next
    case False
    with Pair show ?thesis by simp
  qed
qed

lemma init_stage_sigs:
  "\<exists>p rest. PluginBase_init pfx cls ptype super_sigs parent_cam = Inr p \<and>
      stage_sigs p = (''enable'', IntV 1) # rest \<and>
      ''enable'' \<notin> fst ` set rest \<and>
      map_of (stage_sigs p) ''blocking_callbacks'' = Some (StrV ''Yes'') \<and>
      (parent_cam \<longrightarrow> map_of (stage_sigs p) ''parent.cam.array_callbacks'' = Some (IntV 1))"
proof -
  let ?f = "filter (\<lambda>kv. fst kv \<noteq> ''enable'') super_sigs"
  let ?r3 = "od_setitem ''blocking_callbacks'' (StrV ''Yes'') ?f"
  let ?r4 = "if parent_cam then od_setitem ''parent.cam.array_callbacks'' (IntV 1) ?r3 else ?r3"
  have e: "''enable'' \<notin> fst ` set ?f" by auto
  have i: "PluginBase_init pfx cls ptype super_sigs parent_cam =
      Inr \<lparr>prefix_str = pfx, class_name = cls, plugin_type_attr = ptype,
          misconfigured = (if ptype \<noteq> None then None else Some False),
          stage_sigs = (''enable'', IntV 1) # ?r4, logged = []\<rparr>"
    by (simp add: PluginBase_init_eq ensure_blocking_def Let_def)
  have r: "''enable'' \<notin> fst ` set ?r4"
    using e by (simp add: keys_od_setitem_set)
  have b: "map_of ((''enable'', IntV 1) # ?r4) ''blocking_callbacks'' = Some (StrV ''Yes'')"
    by (simp add: map_of_od_setitem)
  have c: "parent_cam \<longrightarrow>
      map_of ((''enable'', IntV 1) # ?r4) ''parent.cam.array_callbacks'' = Some (IntV 1)"
    by (simp add: map_of_od_setitem)
  show ?thesis
    unfolding i using r b c by (intro exI [of _ ?r4] exI conjI) (rule refl, simp_all)
qed

text \<open>
  C7. Whatever directives the inherited constructor leaves, in whatever order, the
  constructor returns an instance whose directive set starts with \<open>enable\<close> set to 1
  and holds \<open>enable\<close> nowhere else, holds \<open>blocking_callbacks\<close> set to \<open>Yes\<close> and,
  when the parent exposes a camera, the parent camera's array-callbacks directive set to 1;
  a staging that applies the directives in insertion order therefore writes \<open>enable\<close>
  first and every other directive after it, whichever writes converge.
\<close>

theorem enable_staged_first:
  "\<exists>p rest ws. PluginBase_init pfx cls ptype super_sigs parent_cam = Inr p \<and>
      stage_sigs p = (''enable'', IntV 1) # rest \<and>
      ''enable'' \<notin> fst ` set rest \<and>
      map_of (stage_sigs p) ''blocking_callbacks'' = Some (StrV ''Yes'') \<and>
      (parent_cam \<longrightarrow> map_of (stage_sigs p) ''parent.cam.array_callbacks'' = Some (IntV 1)) \<and>
      fst (apply_directives converges (stage_sigs p)) = (''enable'', IntV 1) # ws \<and>
      ''enable'' \<notin> fst ` set ws"
proof -
  from init_stage_sigs [of pfx cls ptype super_sigs parent_cam]
  obtain p rest where i: "PluginBase_init pfx cls ptype super_sigs parent_cam = Inr p"
    and s: "stage_sigs p = (''enable'', IntV 1) # rest"
    and e: "''enable'' \<notin> fst ` set rest"
    and b: "map_of (stage_sigs p) ''blocking_callbacks'' = Some (StrV ''Yes'')"
    and c: "parent_cam \<longrightarrow> map_of (stage_sigs p) ''parent.cam.array_callbacks'' = Some (IntV 1)"
    by blast
  from apply_directives_Cons [of converges "(''enable'', IntV 1)" rest]
  obtain ws where w: "fst (apply_directives converges ((''enable'', IntV 1) # rest)) =
      (''enable'', IntV 1) # ws" and p: "prefix ws rest"
    by blast
  from p have "set ws \<subseteq> set rest" by (rule set_mono_prefix)
  with e have "''enable'' \<notin> fst ` set ws" by auto
  with i s e b c w show ?thesis by auto
qed

theorem enable_staged_first_witness:
  "\<exists>p. PluginBase_init ''13SIM1:HDF1:'' ''HDF5Plugin'' (Some ''NDFileHDF5'')
          [(''capture'', IntV 1), (''enable'', IntV 0), (''blocking_callbacks'', StrV ''No'')]
          True = Inr p \<and>
       stage_sigs p =
         [(''enable'', IntV 1), (''capture'', IntV 1), (''blocking_callbacks'', StrV ''Yes''),
          (''parent.cam.array_callbacks'', IntV 1)] \<and>
       fst (apply_directives (\<lambda>k v. True) (stage_sigs p)) = stage_sigs p \<and>
       apply_directives (\<lambda>k v. k \<noteq> ''capture'') (stage_sigs p) =
         ([(''enable'', IntV 1), (''capture'', IntV 1)], Some TimeoutError)"
  using enable_staged_first [of "''13SIM1:HDF1:''" "''HDF5Plugin''" "Some ''NDFileHDF5''"
      "[(''capture'', IntV 1), (''enable'', IntV 0), (''blocking_callbacks'', StrV ''No'')]"
      True "\<lambda>k v. True"]
  by (simp add: PluginBase_init_eq ensure_blocking_def)

subsection \<open>Upstream chain\<close>

lemma asyn_pipeline_stable:
  "asyn_pipeline n T p = r \<Longrightarrow> r \<noteq> Inl RecursionError \<Longrightarrow> asyn_pipeline (Suc n) T p = r"
proof (induction n arbitrary: p r)
  case 0
  then show ?case by simp
next
  case (Suc n)
  show ?case
  proof (cases "nd_array_port_get T p")
    case (Inl e)
    with Suc.prems show ?thesis by simp
  next
    case (Inr port)
    show ?thesis
    proof (cases "get_plugin_by_asyn_port T port")
      case (Plugin q)
      have "asyn_pipeline n T q \<noteq> Inl RecursionError"
        using Suc.prems Inr Plugin by (auto split: sum.splits)
      from Suc.IH [OF refl this] have "asyn_pipeline (Suc n) T q = asyn_pipeline n T q" .
      then show ?thesis
        using Suc.prems(1) Inr Plugin
        by (auto simp del: asyn_pipeline.simps
              simp add: asyn_pipeline.simps(2) [of "Suc n" T p] asyn_pipeline.simps(2) [of n T p]
              split: sum.splits)
    next
      case (Device d)
      with Suc.prems Inr show ?thesis by simp
    next
      case NoneObj
      with Suc.prems Inr show ?thesis by simp
    qed
  qed
qed

lemma asyn_pipeline_mono:
  "asyn_pipeline n T p = Inr chain \<Longrightarrow> n \<le> m \<Longrightarrow> asyn_pipeline m T p = Inr chain"
proof (induction m)
  case 0
  then show ?case by simp
next
  case (Suc m)
  show ?case
  proof (cases "n = Suc m")
    case True
    with Suc.prems show ?thesis by simp
  next
    case False
    with Suc.prems have "n \<le> m" by simp
    from Suc.IH [OF Suc.prems(1) this] have "asyn_pipeline m T p = Inr chain" .
    then show ?thesis by (rule asyn_pipeline_stable) simp
  qed
qed

text \<open>
  C3. Resolving the chain of a plugin reads its source-port value and looks the port up in
  the root's index. When the object found is a plugin whose own chain evaluates to
  \<open>chain\<close>, the result is \<open>chain\<close> with this plugin appended; when the object found
  does not expose a chain (a plugin whose property raises \<^verbatim>\<open>AttributeError\<close>, a device
  that is not a plugin such as the root source, or nothing), the result is the pair of that
  object and this plugin. A result does not depend on the depth the interpreter allows
  beyond the depth that produced it: repeated calls on an unchanged tree give the same
  sequence.
\<close>

theorem asyn_pipeline_resolution:
  "nd_array_port_get T p = Inr port \<longrightarrow>
     (get_plugin_by_asyn_port T port = Plugin q \<and> asyn_pipeline n T q = Inr chain \<longrightarrow>
        asyn_pipeline (Suc n) T p = Inr (chain @ [Plugin p])) \<and>
     (get_plugin_by_asyn_port T port = Plugin q \<and> asyn_pipeline n T q = Inl AttributeError \<longrightarrow>
        asyn_pipeline (Suc n) T p = Inr [Plugin q, Plugin p]) \<and>
     (get_plugin_by_asyn_port T port = Device d \<longrightarrow>
        asyn_pipeline (Suc n) T p = Inr [Device d, Plugin p]) \<and>
     (get_plugin_by_asyn_port T port = NoneObj \<longrightarrow>
        asyn_pipeline (Suc n) T p = Inr [NoneObj, Plugin p]) \<and>
     (asyn_pipeline n T p = Inr chain' \<and> n \<le> m \<longrightarrow> asyn_pipeline m T p = Inr chain')"
proof (intro impI conjI)
  assume "asyn_pipeline n T p = Inr chain' \<and> n \<le> m"
  then show "asyn_pipeline m T p = Inr chain'"
    by (blast intro: asyn_pipeline_mono)
qed simp_all

theorem asyn_pipeline_resolution_witness:
  "nd_array_port_get example_tree 2 = Inr ''ROI1'' \<and>
   get_plugin_by_asyn_port example_tree ''ROI1'' = Plugin 1 \<and>
   nd_array_port_get example_tree 1 = Inr ''CAM'' \<and>
   get_plugin_by_asyn_port example_tree ''CAM'' = Device 0 \<and>
   asyn_pipeline (Suc 0) example_tree 1 = Inr [Device 0, Plugin 1] \<and>
   asyn_pipeline (Suc (Suc 0)) example_tree 2 = Inr [Device 0, Plugin 1, Plugin 2] \<and>
   asyn_pipeline 1000 example_tree 2 = Inr [Device 0, Plugin 1, Plugin 2]"
proof -
  have a: "nd_array_port_get example_tree 2 = Inr ''ROI1''"
    "get_plugin_by_asyn_port example_tree ''ROI1'' = Plugin 1"
    "nd_array_port_get example_tree 1 = Inr ''CAM''"
    "get_plugin_by_asyn_port example_tree ''CAM'' = Device 0"
    by (simp_all add: example_tree_def)
  from asyn_pipeline_resolution [of example_tree 1 "''CAM''" 1 0 "[]" 0 "[]" 0] a
  have b: "asyn_pipeline (Suc 0) example_tree 1 = Inr [Device 0, Plugin 1]"
    by simp
  from asyn_pipeline_resolution [of example_tree 2 "''ROI1''" 1 "Suc 0" "[Device 0, Plugin 1]" 0
      "[]" 0] a b
  have c: "asyn_pipeline (Suc (Suc 0)) example_tree 2 = Inr [Device 0, Plugin 1, Plugin 2]"
    by simp
  from asyn_pipeline_resolution [of example_tree 2 "''ROI1''" 1 "Suc (Suc 0)" "[]" 0
      "[Device 0, Plugin 1, Plugin 2]" 1000] a c
  have d: "asyn_pipeline 1000 example_tree 2 = Inr [Device 0, Plugin 1, Plugin 2]"
    by simp
  from a b c d show ?thesis by simp
qed

subsection \<open>Merged configuration\<close>

lemma map_of_od_update:
  "distinct (map fst other) \<Longrightarrow> map_of (od_update d other) = map_of d ++ map_of other"
proof (induction other arbitrary: d)
  case Nil
  then show ?case by simp
next
  case (Cons kv other)
  obtain k v where kv: "kv = (k, v)" by (cases kv)
  from Cons.prems kv have d: "distinct (map fst other)" and n: "k \<notin> fst ` set other"
    by simp_all
  from n have m: "map_of other k = None"
    by (simp add: map_of_eq_None_iff)
  have "map_of (od_update d (kv # other)) = map_of (od_setitem k v d) ++ map_of other"
    by (simp add: kv Cons.IH [OF d])
  also have "\<dots> = (map_of d)(k \<mapsto> v) ++ map_of other"
    by (simp only: map_of_od_setitem)
  also have "\<dots> = map_of d ++ map_of (kv # other)"
    using m by (auto simp: kv fun_eq_iff map_add_def split: option.splits)
  finally show ?case .
qed

lemma keys_od_update:
  "distinct (map fst other) \<Longrightarrow>
   map fst (od_update d other) =
     map fst d @ filter (\<lambda>k. k \<notin> set (map fst d)) (map fst other)"
proof (induction other arbitrary: d)
  case Nil
  then show ?case by simp
next
  case (Cons kv other)
  obtain k v where kv: "kv = (k, v)" by (cases kv)
  from Cons.prems kv have d: "distinct (map fst other)" and n: "k \<notin> set (map fst other)"
    by simp_all
  show ?case
  proof (cases "k \<in> fst ` set d")
    case True
    then show ?thesis
      by (simp add: kv Cons.IH [OF d] keys_od_setitem)
  next
    case False
    have "filter (\<lambda>x. x \<noteq> k \<and> x \<notin> fst ` set d) (map fst other) =
          filter (\<lambda>x. x \<notin> fst ` set d) (map fst other)"
      using n by (intro filter_cong) auto
    with False show ?thesis
      by (simp add: kv Cons.IH [OF d] keys_od_setitem conj_commute)
  qed
qed

text \<open>
  C4, as the code has it. The merged configuration of a plugin is its own configuration
  updated with the merged configuration of its source (for a source that is not a plugin,
  that device's own configuration), for \<open>read_configuration\<close> and
  \<open>describe_configuration\<close> alike. With the dictionary update this means: the plugin's
  own fields come first, in their order, followed by the fields of the source that the
  plugin does not have; on a colliding field name the field keeps the plugin's position
  and takes the upstream value.
\<close>

theorem configuration_merge:
  "source_plugin T p = Inr src \<longrightarrow>
     (src = Device d \<longrightarrow>
        read_configuration (Suc n) T p =
          Inr (od_update (device_read_configuration T (Plugin p))
                 (device_read_configuration T (Device d))) \<and>
        describe_configuration (Suc n) T p =
          Inr (od_update (device_describe_configuration T (Plugin p))
                 (device_describe_configuration T (Device d)))) \<and>
     (src = Plugin q \<and> read_configuration n T q = Inr up \<longrightarrow>
        read_configuration (Suc n) T p =
          Inr (od_update (device_read_configuration T (Plugin p)) up)) \<and>
     (src = Plugin q \<and> describe_configuration n T q = Inr upd \<longrightarrow>
        describe_configuration (Suc n) T p =
          Inr (od_update (device_describe_configuration T (Plugin p)) upd)) \<and>
     (distinct (map fst other) \<longrightarrow>
        map_of (od_update own other) = map_of own ++ map_of other \<and>
        map fst (od_update own other) =
          map fst own @ filter (\<lambda>k. k \<notin> set (map fst own)) (map fst other))"
  by (simp add: map_of_od_update keys_od_update)

text \<open>
  The claim C4 as written fails: for the two-level chain camera, region-of-interest plugin
  the code returns the plugin's fields first with the camera's value on the colliding
  \<open>port_name\<close>, where the merge the claim describes has the camera's fields first and
  keeps the plugin's value.
\<close>

theorem configuration_upstream_wins:
  "source_plugin example_tree 1 = Inr (Device 0) \<and>
   device_read_configuration example_tree (Device 0) =
     [(''cam_model'', ''sim''), (''port_name'', ''CAM'')] \<and>
   device_read_configuration example_tree (Plugin 1) =
     [(''roi_enable'', ''1''), (''port_name'', ''ROI1'')] \<and>
   read_configuration (Suc 0) example_tree 1 =
     Inr [(''roi_enable'', ''1''), (''port_name'', ''CAM''), (''cam_model'', ''sim'')] \<and>
   merged_configuration_spec (device_read_configuration example_tree (Device 0))
       (device_read_configuration example_tree (Plugin 1)) =
     [(''cam_model'', ''sim''), (''port_name'', ''ROI1''), (''roi_enable'', ''1'')] \<and>
   read_configuration (Suc 0) example_tree 1 \<noteq>
     Inr (merged_configuration_spec (device_read_configuration example_tree (Device 0))
            (device_read_configuration example_tree (Plugin 1)))"
  by (simp add: example_tree_def source_plugin_def merged_configuration_spec_def)

theorem configuration_merge_witness:
  "source_plugin example_tree 1 = Inr (Device 0) \<and>
   source_plugin example_tree 2 = Inr (Plugin 1) \<and>
   read_configuration (Suc 0) example_tree 1 =
     Inr [(''roi_enable'', ''1''), (''port_name'', ''CAM''), (''cam_model'', ''sim'')] \<and>
   read_configuration (Suc (Suc 0)) example_tree 2 =
     Inr [(''port_name'', ''CAM''), (''roi_enable'', ''1''), (''cam_model'', ''sim'')] \<and>
   describe_configuration (Suc 0) example_tree 1 =
     Inr [(''roi_enable'', ''integer''), (''port_name'', ''string''), (''cam_model'', ''string'')] \<and>
   distinct (map fst [(''cam_model'', ''sim''), (''port_name'', ''CAM'')]) \<and>
   map_of (od_update [(''roi_enable'', ''1''), (''port_name'', ''ROI1'')]
             [(''cam_model'', ''sim''), (''port_name'', ''CAM'')]) ''port_name'' = Some ''CAM''"
proof -
  have s: "source_plugin example_tree 1 = Inr (Device 0)"
    "source_plugin example_tree 2 = Inr (Plugin 1)"
    by (simp_all add: example_tree_def source_plugin_def)
  have c: "device_read_configuration example_tree (Device 0) =
      [(''cam_model'', ''sim''), (''port_name'', ''CAM'')]"
    "device_read_configuration example_tree (Plugin 1) =
      [(''roi_enable'', ''1''), (''port_name'', ''ROI1'')]"
    "device_read_configuration example_tree (Plugin 2) = [(''port_name'', ''STATS1'')]"
    "device_describe_configuration example_tree (Device 0) =
      [(''cam_model'', ''string''), (''port_name'', ''string'')]"
    "device_describe_configuration example_tree (Plugin 1) =
      [(''roi_enable'', ''integer''), (''port_name'', ''string'')]"
    by (simp_all add: example_tree_def)
  have d: "distinct (map fst [(''cam_model'', ''sim''), (''port_name'', ''CAM'')])"
    by simp
  note a = configuration_merge [of example_tree 1 "Device 0" 0 0 0 "[]" "[]"
      "[(''cam_model'', ''sim''), (''port_name'', ''CAM'')]"
      "[(''roi_enable'', ''1''), (''port_name'', ''ROI1'')]"]
  from a s c have r1: "read_configuration (Suc 0) example_tree 1 =
     Inr [(''roi_enable'', ''1''), (''port_name'', ''CAM''), (''cam_model'', ''sim'')]"
    and d1: "describe_configuration (Suc 0) example_tree 1 =
     Inr [(''roi_enable'', ''integer''), (''port_name'', ''string''), (''cam_model'', ''string'')]"
    by simp_all
  from a d have m: "map_of (od_update [(''roi_enable'', ''1''), (''port_name'', ''ROI1'')]
             [(''cam_model'', ''sim''), (''port_name'', ''CAM'')]) ''port_name'' = Some ''CAM''"
    by simp
  note b = configuration_merge [of example_tree 2 "Plugin 1" 0 "Suc 0" 1
      "[(''roi_enable'', ''1''), (''port_name'', ''CAM''), (''cam_model'', ''sim'')]" "[]"
      "[]" "[]"]
  from b s c r1 have r2: "read_configuration (Suc (Suc 0)) example_tree 2 =
     Inr [(''port_name'', ''CAM''), (''roi_enable'', ''1''), (''cam_model'', ''sim'')]"
    by simp
  from s r1 r2 d1 d m show ?thesis by simp
qed

subsection \<open>Discovery\<close>

lemma py_split_first: "\<exists>ws. py_split sep s = takeWhile (\<lambda>c. c \<noteq> sep) s # ws"
  by (induction s) auto

lemma plugin_from_pvname_find:
  "\<forall>kc \<in> set reg. cls_suffix_re (snd kc) \<noteq> None \<Longrightarrow>
   plugin_from_pvname reg pv =
     Inr (map_option snd (find (\<lambda>kc. class_matches pv (snd kc)) reg))"
  by (induction reg pv rule: plugin_from_pvname.induct)
     (auto simp: class_matches_def split: option.splits)

lemma get_class_by_pattern:
  "plugin_from_pvname reg pv = Inr (Some cls) \<Longrightarrow>
   get_areadetector_plugin_class reg caget pv timeout_arg = Inr cls"
  by (simp add: get_areadetector_plugin_class_def)

lemma get_class_timeout:
  "plugin_from_pvname reg pv = Inr None \<Longrightarrow>
   caget (pv @ ''PluginType_RBV'') (case timeout_arg of None \<Rightarrow> 2 | Some t \<Rightarrow> t) = None \<Longrightarrow>
   get_areadetector_plugin_class reg caget pv timeout_arg =
     Inl (ValueError ''Unable to determine plugin type (caget timed out)'')"
  by (simp add: get_areadetector_plugin_class_def)

lemma get_class_query:
  assumes "plugin_from_pvname reg pv = Inr None"
    and "caget (pv @ ''PluginType_RBV'') (case timeout_arg of None \<Rightarrow> 2 | Some t \<Rightarrow> t) = Some type_str"
  shows "get_areadetector_plugin_class reg caget pv timeout_arg =
     (case map_of reg (Some (takeWhile (\<lambda>c. c \<noteq> CHR '' '') type_str)) of
        Some cls \<Rightarrow> Inr cls
      | None \<Rightarrow> Inl (ValueError (''Unable to determine plugin type (PluginType='' @
                  takeWhile (\<lambda>c. c \<noteq> CHR '' '') type_str @ '')'')))"
proof -
  from py_split_first [of "CHR '' ''" type_str]
  obtain ws where "py_split (CHR '' '') type_str = takeWhile (\<lambda>c. c \<noteq> CHR '' '') type_str # ws"
    by blast
  with assms show ?thesis
    by (simp add: get_areadetector_plugin_class_def)
qed

lemma module_registry_eq:
  "module_registry =
     [(Some ''NDPluginStdArrays'', declared_class ''ImagePlugin'' ''NDPluginStdArrays'' ''image''),
      (Some ''NDPluginStats'', declared_class ''StatsPlugin'' ''NDPluginStats'' ''Stats''),
      (Some ''NDPluginColorConvert'', declared_class ''ColorConvPlugin'' ''NDPluginColorConvert'' ''CC''),
      (Some ''NDPluginProcess'', declared_class ''ProcessPlugin'' ''NDPluginProcess'' ''Proc''),
      (Some ''NDPluginOverlay'', declared_class ''OverlayPlugin'' ''NDPluginOverlay'' ''Over''),
      (Some ''NDPluginROI'', declared_class ''ROIPlugin'' ''NDPluginROI'' ''ROI''),
      (Some ''NDPluginTransform'', declared_class ''TransformPlugin'' ''NDPluginTransform'' ''Trans''),
      (Some ''NDFileNetCDF'', declared_class ''NetCDFPlugin'' ''NDFileNetCDF'' ''netCDF''),
      (Some ''NDFileTIFF'', declared_class ''TIFFPlugin'' ''NDFileTIFF'' ''TIFF''),
      (Some ''NDFileJPEG'', declared_class ''JPEGPlugin'' ''NDFileJPEG'' ''JPEG''),
      (Some ''NDPluginNexus'', declared_class ''NexusPlugin'' ''NDPluginNexus'' ''Nexus''),
      (Some ''NDFileHDF5'', declared_class ''HDF5Plugin'' ''NDFileHDF5'' ''HDF''),
      (Some ''NDFileMagick'', declared_class ''MagickPlugin'' ''NDFileMagick'' ''Magick'')]"
  by (simp add: module_registry_def register_plugin_def declared_class_def)

lemma module_registry_patterns:
  "\<forall>kc \<in> set module_registry. cls_suffix_re (snd kc) \<noteq> None"
  by (simp add: module_registry_eq declared_class_def)

lemma from_pvname_stats:
  "plugin_from_pvname module_registry ''13SIM1:Stats7:'' =
     Inr (Some (declared_class ''StatsPlugin'' ''NDPluginStats'' ''Stats''))"
  by (simp add: module_registry_eq declared_class_def suffix_pattern_def is_digit_def)

lemma from_pvname_none:
  "plugin_from_pvname module_registry ''13SIM1:hdf:'' = Inr None"
  "plugin_from_pvname module_registry ''13SIM1:foo:'' = Inr None"
  "plugin_from_pvname module_registry ''13SIM1:bar:'' = Inr None"
  by (simp_all add: module_registry_eq declared_class_def suffix_pattern_def is_digit_def)

text \<open>
  C8. On a registry whose classes all declare a pattern, discovery by pattern returns the
  first registered class whose pattern matches the prefix and \<^verbatim>\<open>None\<close> exactly when no
  pattern matches; it makes no read. Discovery with fallback returns that class when there
  is one, whatever channel access would answer. Otherwise it reads the point
  \<^verbatim>\<open>prefix + 'PluginType_RBV'\<close> with the caller's timeout, 2 when the caller gives none:
  a read that does not complete fails with the timed-out \<^verbatim>\<open>ValueError\<close>; a value read
  is cut at its first space and looked up in the registry, giving the registered class or
  the \<^verbatim>\<open>ValueError\<close> that names the identifier. The two messages differ for every
  identifier.
\<close>

theorem discovery:
  "(\<forall>kc \<in> set reg. cls_suffix_re (snd kc) \<noteq> None) \<longrightarrow>
     plugin_from_pvname reg pv =
       Inr (map_option snd (find (\<lambda>kc. class_matches pv (snd kc)) reg)) \<and>
     ((plugin_from_pvname reg pv = Inr None) =
        (\<forall>kc \<in> set reg. \<not> class_matches pv (snd kc))) \<and>
     (plugin_from_pvname reg pv = Inr (Some cls) \<longrightarrow>
        get_areadetector_plugin_class reg caget pv timeout_arg = Inr cls) \<and>
     (plugin_from_pvname reg pv = Inr None \<longrightarrow>
        (caget (pv @ ''PluginType_RBV'') (case timeout_arg of None \<Rightarrow> 2 | Some t \<Rightarrow> t) = None
           \<longrightarrow>
           get_areadetector_plugin_class reg caget pv timeout_arg =
             Inl (ValueError ''Unable to determine plugin type (caget timed out)'')) \<and>
        (caget (pv @ ''PluginType_RBV'') (case timeout_arg of None \<Rightarrow> 2 | Some t \<Rightarrow> t) =
           Some type_str \<longrightarrow>
           (map_of reg (Some (takeWhile (\<lambda>c. c \<noteq> CHR '' '') type_str)) = Some cls' \<longrightarrow>
              get_areadetector_plugin_class reg caget pv timeout_arg = Inr cls') \<and>
           (map_of reg (Some (takeWhile (\<lambda>c. c \<noteq> CHR '' '') type_str)) = None \<longrightarrow>
              get_areadetector_plugin_class reg caget pv timeout_arg =
                Inl (ValueError (''Unable to determine plugin type (PluginType='' @
                       takeWhile (\<lambda>c. c \<noteq> CHR '' '') type_str @ '')''))))) \<and>
     ''Unable to determine plugin type (caget timed out)'' \<noteq>
       ''Unable to determine plugin type (PluginType='' @ ident @ '')''"
proof (intro impI conjI)
  assume p: "\<forall>kc \<in> set reg. cls_suffix_re (snd kc) \<noteq> None"
  show f: "plugin_from_pvname reg pv =
       Inr (map_option snd (find (\<lambda>kc. class_matches pv (snd kc)) reg))"
    by (rule plugin_from_pvname_find [OF p])
  show "(plugin_from_pvname reg pv = Inr None) =
        (\<forall>kc \<in> set reg. \<not> class_matches pv (snd kc))"
    by (auto simp: f find_None_iff)
next
  assume "plugin_from_pvname reg pv = Inr (Some cls)"
  then show "get_areadetector_plugin_class reg caget pv timeout_arg = Inr cls"
    by (rule get_class_by_pattern)
next
  assume n: "plugin_from_pvname reg pv = Inr None"
  {
    assume "caget (pv @ ''PluginType_RBV'') (case timeout_arg of None \<Rightarrow> 2 | Some t \<Rightarrow> t) = None"
    with n show "get_areadetector_plugin_class reg caget pv timeout_arg =
             Inl (ValueError ''Unable to determine plugin type (caget timed out)'')"
      by (rule get_class_timeout [of reg pv caget timeout_arg])
  }
  assume c: "caget (pv @ ''PluginType_RBV'') (case timeout_arg of None \<Rightarrow> 2 | Some t \<Rightarrow> t) =
           Some type_str"
  note q = get_class_query [of reg pv caget timeout_arg type_str, OF n c]
  {
    assume "map_of reg (Some (takeWhile (\<lambda>c. c \<noteq> CHR '' '') type_str)) = Some cls'"
    with q show "get_areadetector_plugin_class reg caget pv timeout_arg = Inr cls'"
      by simp
  }
  assume "map_of reg (Some (takeWhile (\<lambda>c. c \<noteq> CHR '' '') type_str)) = None"
  with q show "get_areadetector_plugin_class reg caget pv timeout_arg =
                Inl (ValueError (''Unable to determine plugin type (PluginType='' @
                       takeWhile (\<lambda>c. c \<noteq> CHR '' '') type_str @ '')''))"
    by simp
next
  show "''Unable to determine plugin type (caget timed out)'' \<noteq>
       ''Unable to determine plugin type (PluginType='' @ ident @ '')''"
    by simp
qed

theorem discovery_witness:
  "list_all (\<lambda>kc. cls_suffix_re (snd kc) \<noteq> None) module_registry \<and>
   plugin_from_pvname module_registry ''13SIM1:Stats7:'' =
     Inr (Some (declared_class ''StatsPlugin'' ''NDPluginStats'' ''Stats'')) \<and>
   get_areadetector_plugin_class module_registry example_caget ''13SIM1:Stats7:'' None =
     Inr (declared_class ''StatsPlugin'' ''NDPluginStats'' ''Stats'') \<and>
   plugin_from_pvname module_registry ''13SIM1:hdf:'' = Inr None \<and>
   example_caget ''13SIM1:hdf:PluginType_RBV'' 2 = Some ''NDFileHDF5 ver1.2'' \<and>
   get_areadetector_plugin_class module_registry example_caget ''13SIM1:hdf:'' None =
     Inr (declared_class ''HDF5Plugin'' ''NDFileHDF5'' ''HDF'') \<and>
   get_areadetector_plugin_class module_registry example_caget ''13SIM1:hdf:'' (Some 5) =
     Inl (ValueError ''Unable to determine plugin type (caget timed out)'') \<and>
   get_areadetector_plugin_class module_registry example_caget ''13SIM1:foo:'' None =
     Inl (ValueError ''Unable to determine plugin type (PluginType=NDPluginFoo)'') \<and>
   get_areadetector_plugin_class module_registry example_caget ''13SIM1:bar:'' None =
     Inl (ValueError ''Unable to determine plugin type (caget timed out)'')"
proof -
  have p: "\<forall>kc \<in> set module_registry. cls_suffix_re (snd kc) \<noteq> None"
    by (rule module_registry_patterns)
  have l: "list_all (\<lambda>kc. cls_suffix_re (snd kc) \<noteq> None) module_registry"
    using p by (simp add: list_all_iff)
  have c: "example_caget ''13SIM1:hdf:PluginType_RBV'' 2 = Some ''NDFileHDF5 ver1.2''"
    "example_caget ''13SIM1:hdf:PluginType_RBV'' 5 = None"
    "example_caget ''13SIM1:foo:PluginType_RBV'' 2 = Some ''NDPluginFoo 1.0''"
    "example_caget ''13SIM1:bar:PluginType_RBV'' 2 = None"
    by (simp_all add: example_caget_def)
  have m: "map_of module_registry (Some ''NDFileHDF5'') =
      Some (declared_class ''HDF5Plugin'' ''NDFileHDF5'' ''HDF'')"
    "map_of module_registry (Some ''NDPluginFoo'') = None"
    by (simp_all add: module_registry_eq)
  note s = discovery [of module_registry "''13SIM1:Stats7:''"
      "declared_class ''StatsPlugin'' ''NDPluginStats'' ''Stats''" example_caget None
      "[]" "declared_class ''StatsPlugin'' ''NDPluginStats'' ''Stats''" "[]"]
  note h = discovery [of module_registry "''13SIM1:hdf:''"
      "declared_class ''HDF5Plugin'' ''NDFileHDF5'' ''HDF''" example_caget None
      "''NDFileHDF5 ver1.2''" "declared_class ''HDF5Plugin'' ''NDFileHDF5'' ''HDF''" "[]"]
  note h5 = discovery [of module_registry "''13SIM1:hdf:''"
      "declared_class ''HDF5Plugin'' ''NDFileHDF5'' ''HDF''" example_caget "Some 5"
      "''NDFileHDF5 ver1.2''" "declared_class ''HDF5Plugin'' ''NDFileHDF5'' ''HDF''" "[]"]
  note f = discovery [of module_registry "''13SIM1:foo:''"
      "declared_class ''HDF5Plugin'' ''NDFileHDF5'' ''HDF''" example_caget None
      "''NDPluginFoo 1.0''" "declared_class ''HDF5Plugin'' ''NDFileHDF5'' ''HDF''" "[]"]
  note b = discovery [of module_registry "''13SIM1:bar:''"
      "declared_class ''HDF5Plugin'' ''NDFileHDF5'' ''HDF''" example_caget None
      "[]" "declared_class ''HDF5Plugin'' ''NDFileHDF5'' ''HDF''" "[]"]
  from s p from_pvname_stats
  have r1: "get_areadetector_plugin_class module_registry example_caget ''13SIM1:Stats7:'' None =
     Inr (declared_class ''StatsPlugin'' ''NDPluginStats'' ''Stats'')"
    by simp
  from h p from_pvname_none(1) c m
  have r2: "get_areadetector_plugin_class module_registry example_caget ''13SIM1:hdf:'' None =
     Inr (declared_class ''HDF5Plugin'' ''NDFileHDF5'' ''HDF'')"
    by simp
  from h5 p from_pvname_none(1) c
  have r3: "get_areadetector_plugin_class module_registry example_caget ''13SIM1:hdf:'' (Some 5) =
     Inl (ValueError ''Unable to determine plugin type (caget timed out)'')"
    by simp
  from f p from_pvname_none(2) c m
  have r4: "get_areadetector_plugin_class module_registry example_caget ''13SIM1:foo:'' None =
     Inl (ValueError ''Unable to determine plugin type (PluginType=NDPluginFoo)'')"
    by simp
  from b p from_pvname_none(3) c
  have r5: "get_areadetector_plugin_class module_registry example_caget ''13SIM1:bar:'' None =
     Inl (ValueError ''Unable to determine plugin type (caget timed out)'')"
    by simp
  from l from_pvname_stats from_pvname_none(1) c(1) r1 r2 r3 r4 r5 show ?thesis
    by simp
qed

subsection \<open>Region-of-interest setter\<close>

lemma foldl_and: "foldl (\<and>) s ss = (s \<and> list_all id ss)"
  by (induction ss arbitrary: s) auto

lemma reduce_and_Cons: "reduce_and (s # ss) = Inr (list_all id (s # ss))"
  by (simp add: reduce_and_def foldl_and)

lemma length_run_writes: "length (snd (run_writes put ws ps)) = length ws"
  by (induction put ws ps rule: run_writes.induct) (auto split: prod.splits)

lemma length_region_writes: "length (region_writes region_items) = 2 * length region_items"
  by (induction region_items) (auto simp: region_writes_def)

lemma roi_set_loop_ok:
  "region_ok region_items \<Longrightarrow>
   roi_set_loop put region_items w status =
     (w\<lparr>points := fst (run_writes put (region_writes region_items) (points w)),
        issued := issued w @ region_writes region_items\<rparr>,
      Inr (status @ snd (run_writes put (region_writes region_items) (points w))))"
proof (induction region_items arbitrary: w status)
  case Nil
  then show ?case by (simp add: region_writes_def)
next
  case (Cons dv region_items)
  obtain d v where dv: "dv = (d, v)" by (cases dv)
  from Cons.prems dv have d: "d \<in> set [''x'', ''y'', ''z'']" and l: "length v = 2"
    and r: "region_ok region_items"
    by (simp_all add: region_ok_def)
  obtain ps1 ok1 where p1: "put (''min_xyz.min_'' @ d) (v ! 0) (points w) = (ps1, ok1)"
    by (cases "put (''min_xyz.min_'' @ d) (v ! 0) (points w)")
  obtain ps2 ok2 where p2: "put (''size.'' @ d) (v ! 1) ps1 = (ps2, ok2)"
    by (cases "put (''size.'' @ d) (v ! 1) ps1")
  let ?w2 = "w\<lparr>points := ps2,
      issued := issued w @ [(''min_xyz.min_'' @ d, v ! 0), (''size.'' @ d, v ! 1)]\<rparr>"
  have g: "roi_getattr ''min_xyz.min_'' d = Inr (''min_xyz.min_'' @ d)"
    "roi_getattr ''size.'' d = Inr (''size.'' @ d)"
    using d by (simp_all add: roi_getattr_def)
  have i: "py_index v 0 = Inr (v ! 0)" "py_index v 1 = Inr (v ! 1)"
    using l by (simp_all add: py_index_def)
  have step: "roi_set_loop put (dv # region_items) w status =
      roi_set_loop put region_items ?w2 (status @ [ok1, ok2])"
    using g i p1 p2 by (simp add: dv signal_set_def)
  have rw: "region_writes (dv # region_items) =
      [(''min_xyz.min_'' @ d, v ! 0), (''size.'' @ d, v ! 1)] @ region_writes region_items"
    by (simp add: region_writes_def dv)
  obtain ps3 oks where p3: "run_writes put (region_writes region_items) ps2 = (ps3, oks)"
    by (cases "run_writes put (region_writes region_items) ps2")
  have run: "run_writes put (region_writes (dv # region_items)) (points w) = (ps3, ok1 # ok2 # oks)"
    using p1 p2 p3 by (simp add: rw)
  show ?case
    unfolding step Cons.IH [OF r] run using p3 by (simp add: rw)
qed

text \<open>
  C9. For a region that is not empty, over the axes x, y and z and with a pair for each
  axis, the setter issues, for each axis in the order of the mapping, the write of the
  minimum point and then the write of the size point, and nothing else: two writes per
  axis. It returns the conjunction of the outcomes of all these writes, and the points are
  left as the writes, each applied after the one before, leave them. A write that fails
  makes the result a failure while the effects of the writes that succeeded stay: nothing
  is rolled back.
\<close>

theorem roi_set_writes:
  "region_items \<noteq> [] \<and> region_ok region_items \<longrightarrow>
     ROIPlugin_set put (Some region_items) w =
       (w\<lparr>points := fst (run_writes put (region_writes region_items) (points w)),
          issued := issued w @ region_writes region_items\<rparr>,
        Inr (list_all id (snd (run_writes put (region_writes region_items) (points w))))) \<and>
     length (region_writes region_items) = 2 * length region_items \<and>
     length (snd (run_writes put (region_writes region_items) (points w))) =
       2 * length region_items"
proof (intro impI conjI)
  assume a: "region_items \<noteq> [] \<and> region_ok region_items"
  let ?oks = "snd (run_writes put (region_writes region_items) (points w))"
  show n: "length (region_writes region_items) = 2 * length region_items"
    by (rule length_region_writes)
  show m: "length ?oks = 2 * length region_items"
    by (simp add: length_run_writes n)
  with a obtain s ss where c: "?oks = s # ss"
    by (cases ?oks) auto
  from a have "roi_set_loop put region_items w [] =
     (w\<lparr>points := fst (run_writes put (region_writes region_items) (points w)),
        issued := issued w @ region_writes region_items\<rparr>, Inr ?oks)"
    by (simp add: roi_set_loop_ok)
  then show "ROIPlugin_set put (Some region_items) w =
       (w\<lparr>points := fst (run_writes put (region_writes region_items) (points w)),
          issued := issued w @ region_writes region_items\<rparr>,
        Inr (list_all id ?oks))"
    unfolding ROIPlugin_set_def c by (simp add: reduce_and_Cons)
qed

theorem roi_set_writes_witness:
  "[(''x'', [10, 2000])] \<noteq> [] \<and> region_ok [(''x'', [10, 2000])] \<and>
   region_writes [(''x'', [10, 2000])] = [(''min_xyz.min_x'', 10), (''size.x'', 2000)] \<and>
   run_writes example_put [(''min_xyz.min_x'', 10), (''size.x'', 2000)] (points example_remote) =
     ([''min_xyz.min_x'' \<mapsto> 10, ''size.x'' \<mapsto> 512], [True, False]) \<and>
   ROIPlugin_set example_put (Some [(''x'', [10, 2000])]) example_remote =
     (\<lparr>points = [''min_xyz.min_x'' \<mapsto> 10, ''size.x'' \<mapsto> 512],
       issued = [(''min_xyz.min_x'', 10), (''size.x'', 2000)]\<rparr>, Inr False)"
proof -
  have o: "region_ok [(''x'', [10, 2000])]"
    by (simp add: region_ok_def)
  have r: "region_writes [(''x'', [10, 2000])] = [(''min_xyz.min_x'', 10), (''size.x'', 2000)]"
    by (simp add: region_writes_def)
  have p: "run_writes example_put [(''min_xyz.min_x'', 10), (''size.x'', 2000)]
      (points example_remote) =
     ([''min_xyz.min_x'' \<mapsto> 10, ''size.x'' \<mapsto> 512], [True, False])"
    by (auto simp: example_put_def example_remote_def fun_eq_iff)
  from roi_set_writes [of "[(''x'', [10, 2000])]" example_put example_remote] o
  have "ROIPlugin_set example_put (Some [(''x'', [10, 2000])]) example_remote =
     (\<lparr>points = [''min_xyz.min_x'' \<mapsto> 10, ''size.x'' \<mapsto> 512],
       issued = [(''min_xyz.min_x'', 10), (''size.x'', 2000)]\<rparr>, Inr False)"
    unfolding r p by (simp add: example_remote_def)
  with o r p show ?thesis by simp
qed

text \<open>
  C10. Called with \<^verbatim>\<open>None\<close> the setter raises \<^verbatim>\<open>UnboundLocalError\<close> (the local
  \<^verbatim>\<open>status\<close> was never assigned), and called with an empty mapping it raises
  \<^verbatim>\<open>TypeError\<close> (the reduction of an empty list); in both cases no status is returned
  and no write is issued.
\<close>

theorem roi_set_no_region:
  "ROIPlugin_set put None w = (w, Inl UnboundLocalError) \<and>
   ROIPlugin_set put (Some []) w = (w, Inl TypeError)"
  by (simp add: ROIPlugin_set_def reduce_and_def)

theorem roi_set_no_region_witness:
  "ROIPlugin_set example_put None example_remote = (example_remote, Inl UnboundLocalError) \<and>
   ROIPlugin_set example_put (Some []) example_remote = (example_remote, Inl TypeError)"
  by (rule roi_set_no_region [of example_put example_remote])

end
